theory Spec2Isabelle
  imports Main
begin

section \<open>diagnose-wi: a shallow embedding of cmd/diagnose-wi/main.go\<close>

text \<open>
  The program is a sequential, read-only diagnostic for GKE Workload Identity. Its own
  logic is string formatting, string splitting, two searches through IAM policy bindings
  and the order in which the external services are asked. Go strings are byte
  sequences, so a Go \<^verbatim>\<open>string\<close> is a \<^typ>\<open>string\<close> (a list of 8-bit characters).
\<close>

subsection \<open>Results: return, panic, process exit\<close>

text \<open>
  A Go \<^verbatim>\<open>error\<close> value: an error handed back by a library call, \<^verbatim>\<open>errors.New\<close>, or
  \<^verbatim>\<open>fmt.Errorf\<close> with its format, its string operands and the error it wraps with
  \<^verbatim>\<open>%w\<close> (if any). \<^verbatim>\<open>nil\<close> is \<open>None\<close>.
\<close>

datatype error =
    LibError string
  | New string
  | Errorf string "string list" "error option"

text \<open>
  A run-time panic: an index expression \<^verbatim>\<open>sp[i]\<close> with \<^verbatim>\<open>i\<close> outside a slice of the
  given length, a field read through a nil pointer, or the panic of
  \<^verbatim>\<open>kubernetes.NewForConfigOrDie\<close>.
\<close>

datatype panic =
    IndexOutOfRange nat nat
  | NilDereference
  | OrDie error

text \<open>
  Operands of the formatting calls whose output is only shown to the user
  (\<^verbatim>\<open>log.Fatal\<close>, \<^verbatim>\<open>log.Fatalf\<close>, \<^verbatim>\<open>fmt.Printf\<close>, and \<^verbatim>\<open>fmt.Sprintf\<close> with the quoting verb
  \<^verbatim>\<open>%q\<close>): the text of these is not computed, the format and the operands are kept.
\<close>

datatype arg =
    AString string
  | AError error
  | AStrings "string list"
  | ASprintf string "arg list"

datatype exit =
    LogFatal "arg list"
  | LogFatalf string "arg list"

datatype printed = Printf string "arg list"

datatype 'a result =
    Returned 'a
  | Panicked panic
  | Exited exit

definition andThen :: "'a result \<Rightarrow> ('a \<Rightarrow> 'b result) \<Rightarrow> 'b result" where
  "andThen r f = (case r of Returned x \<Rightarrow> f x | Panicked p \<Rightarrow> Panicked p | Exited e \<Rightarrow> Exited e)"

text \<open>The index expression \<^verbatim>\<open>xs[i]\<close> of Go: a panic when \<^verbatim>\<open>i\<close> is out of range.\<close>

definition index :: "'a list \<Rightarrow> nat \<Rightarrow> 'a result" where
  "index xs i = (if i < length xs then Returned (xs ! i) else Panicked (IndexOutOfRange i (length xs)))"

subsection \<open>The library functions on strings that the program calls\<close>

text \<open>\<^verbatim>\<open>strings.IndexByte\<close>: the position of the first occurrence, \<^term>\<open>None\<close> for Go's -1.\<close>

fun IndexByte :: "string \<Rightarrow> char \<Rightarrow> nat option" where
  "IndexByte [] c = None"
| "IndexByte (x # s) c = (if x = c then Some 0 else map_option Suc (IndexByte s c))"

text \<open>
  \<^verbatim>\<open>strings.Split(s, sep)\<close> for a separator of one byte, which is every separator the
  program passes (\<^verbatim>\<open>"@"\<close>, \<^verbatim>\<open>"."\<close>, \<^verbatim>\<open>"_"\<close>). As the library's loop does, it cuts at the
  first occurrence and goes on with the rest; the last piece is what remains.
\<close>

function Split :: "string \<Rightarrow> char \<Rightarrow> string list" where
  "Split s sep =
     (case IndexByte s sep of
        None \<Rightarrow> [s]
      | Some m \<Rightarrow> take m s # Split (drop (m + 1) s) sep)"
  by pat_completeness auto
termination
proof (relation "measure (\<lambda>(s, sep). length s)")
  show "wf (measure (\<lambda>(s, sep). length s))"
    by simp
next
  fix s :: string and sep :: char and m :: nat
  assume found: "IndexByte s sep = Some m"
  have "\<And>k. IndexByte s sep = Some k \<Longrightarrow> k < length s"
    by (induction s) (auto split: if_splits)
  with found have "m < length s"
    by blast
  then show "((drop (m + 1) s, sep), (s, sep)) \<in> measure (\<lambda>(s, sep). length s)"
    by simp
qed

declare Split.simps [simp del]

text \<open>
  \<^verbatim>\<open>fmt.Sprintf\<close> for formats whose only verb is \<^verbatim>\<open>%s\<close> and operands that are strings,
  which is how the program builds principals and resource names: each \<^verbatim>\<open>%s\<close> is replaced
  by the next operand, every other byte of the format is copied, a verb without operand
  prints \<^verbatim>\<open>%!s(MISSING)\<close> and operands left over are listed after \<^verbatim>\<open>%!(EXTRA\<close>.
\<close>

fun extra :: "string list \<Rightarrow> string" where
  "extra [] = []"
| "extra [a] = ''string='' @ a"
| "extra (a # b # as) = ''string='' @ a @ '', '' @ extra (b # as)"

fun Sprintf :: "string \<Rightarrow> string list \<Rightarrow> string" where
  "Sprintf [] as = (if as = [] then [] else ''%!(EXTRA '' @ extra as @ '')'')"
| "Sprintf [c] as = c # Sprintf [] as"
| "Sprintf (c # v # f) as =
     (if c = CHR ''%'' \<and> v = CHR ''s'' then
        (case as of
           [] \<Rightarrow> ''%!s(MISSING)'' @ Sprintf f []
         | a # as' \<Rightarrow> a @ Sprintf f as')
      else c # Sprintf (v # f) as)"

text \<open>
  \<^verbatim>\<open>strings.TrimSpace\<close> removes leading and trailing white space as Unicode defines
  it (\<^verbatim>\<open>unicode.IsSpace\<close>). On bytes these are the UTF-8 encodings of the code points
  U+0009 to U+000D, U+0020, U+0085, U+00A0, U+1680, U+2000 to U+200A, U+2028, U+2029,
  U+202F, U+205F and U+3000.
\<close>

definition spaces :: "string list" where
  "spaces =
     [[CHR 0x09], [CHR 0x0A], [CHR 0x0B], [CHR 0x0C], [CHR 0x0D], [CHR 0x20],
      [CHR 0xC2, CHR 0x85], [CHR 0xC2, CHR 0xA0],
      [CHR 0xE1, CHR 0x9A, CHR 0x80],
      [CHR 0xE2, CHR 0x80, CHR 0x80], [CHR 0xE2, CHR 0x80, CHR 0x81],
      [CHR 0xE2, CHR 0x80, CHR 0x82], [CHR 0xE2, CHR 0x80, CHR 0x83],
      [CHR 0xE2, CHR 0x80, CHR 0x84], [CHR 0xE2, CHR 0x80, CHR 0x85],
      [CHR 0xE2, CHR 0x80, CHR 0x86], [CHR 0xE2, CHR 0x80, CHR 0x87],
      [CHR 0xE2, CHR 0x80, CHR 0x88], [CHR 0xE2, CHR 0x80, CHR 0x89],
      [CHR 0xE2, CHR 0x80, CHR 0x8A],
      [CHR 0xE2, CHR 0x80, CHR 0xA8], [CHR 0xE2, CHR 0x80, CHR 0xA9],
      [CHR 0xE2, CHR 0x80, CHR 0xAF], [CHR 0xE2, CHR 0x81, CHR 0x9F],
      [CHR 0xE3, CHR 0x80, CHR 0x80]]"

text \<open>\<^verbatim>\<open>strings.HasPrefix\<close> and \<^verbatim>\<open>strings.HasSuffix\<close>.\<close>

definition HasPrefix :: "string \<Rightarrow> string \<Rightarrow> bool" where
  "HasPrefix s p = (length p \<le> length s \<and> take (length p) s = p)"

definition HasSuffix :: "string \<Rightarrow> string \<Rightarrow> bool" where
  "HasSuffix s p = (length p \<le> length s \<and> drop (length s - length p) s = p)"

text \<open>The width in bytes of the white space at the start (at the end) of a string, 0 if none.\<close>

definition leadingSpace :: "string \<Rightarrow> nat" where
  "leadingSpace s = (case find (HasPrefix s) spaces of None \<Rightarrow> 0 | Some p \<Rightarrow> length p)"

definition trailingSpace :: "string \<Rightarrow> nat" where
  "trailingSpace s = (case find (HasSuffix s) spaces of None \<Rightarrow> 0 | Some p \<Rightarrow> length p)"

function TrimLeftSpace :: "string \<Rightarrow> string" where
  "TrimLeftSpace s = (if leadingSpace s = 0 then s else TrimLeftSpace (drop (leadingSpace s) s))"
  by pat_completeness auto
termination
proof (relation "measure length")
  show "wf (measure (length :: string \<Rightarrow> nat))"
    by simp
next
  fix s :: string
  assume some: "leadingSpace s \<noteq> 0"
  have "leadingSpace [] = 0"
    by (simp add: leadingSpace_def spaces_def HasPrefix_def)
  with some have "s \<noteq> []"
    by auto
  with some show "(drop (leadingSpace s) s, s) \<in> measure length"
    by simp
qed

function TrimRightSpace :: "string \<Rightarrow> string" where
  "TrimRightSpace s =
     (if trailingSpace s = 0 then s else TrimRightSpace (take (length s - trailingSpace s) s))"
  by pat_completeness auto
termination
proof (relation "measure length")
  show "wf (measure (length :: string \<Rightarrow> nat))"
    by simp
next
  fix s :: string
  assume some: "trailingSpace s \<noteq> 0"
  have "trailingSpace [] = 0"
    by (simp add: trailingSpace_def spaces_def HasSuffix_def)
  with some have "s \<noteq> []"
    by auto
  with some show "(take (length s - trailingSpace s) s, s) \<in> measure length"
    by simp
qed

declare TrimLeftSpace.simps [simp del] TrimRightSpace.simps [simp del]

definition TrimSpace :: "string \<Rightarrow> string" where
  "TrimSpace s = TrimRightSpace (TrimLeftSpace s)"

subsection \<open>Principals and resource names\<close>

definition getGSAAPIResource :: "string \<Rightarrow> string result" where
  "getGSAAPIResource gsaEmail =
     andThen (index (Split gsaEmail CHR ''@'') 1) (\<lambda>domain.
     andThen (index (Split domain CHR ''.'') 0) (\<lambda>proj.
     Returned (Sprintf ''projects/%s/serviceAccounts/%s'' [proj, gsaEmail])))"

definition ksaIAMPolicyMember :: "string \<Rightarrow> string \<Rightarrow> string \<Rightarrow> string" where
  "ksaIAMPolicyMember wiPool ns ksaName = Sprintf ''serviceAccount:%s[%s/%s]'' [wiPool, ns, ksaName]"

definition getClusterAPIName :: "string \<Rightarrow> string \<Rightarrow> string \<Rightarrow> string" where
  "getClusterAPIName project location name =
     Sprintf ''projects/%s/locations/%s/clusters/%s'' [project, location, name]"

definition gsaIAMPolicyMember :: "string \<Rightarrow> string" where
  "gsaIAMPolicyMember gsaEmail = Sprintf ''serviceAccount:%s'' [gsaEmail]"

subsection \<open>The IAM policy searches\<close>

text \<open>
  An IAM policy as the program reads it: the bindings in the order of the reply, of each
  binding its role and its members.
\<close>

record binding =
  Role :: string
  Members :: "string list"

record policy =
  Bindings :: "binding list"

definition ksaRoles :: "string set" where
  "ksaRoles =
     {''roles/iam.workloadIdentityUser'',
      ''roles/iam.serviceAccountTokenCreator'',
      ''roles/editor'',
      ''roles/owner''}"

text \<open>
  The two nested loops of \<^verbatim>\<open>ksaHasAccessToGSA\<close>. Each tells whether its
  \<^verbatim>\<open>return true, nil\<close> was reached.
\<close>

fun ksaMemberLoop :: "string \<Rightarrow> string \<Rightarrow> string list \<Rightarrow> bool" where
  "ksaMemberLoop ksaMember role [] = False"
| "ksaMemberLoop ksaMember role (member # members) =
     (if member = ksaMember then
        (if role \<in> ksaRoles then True else ksaMemberLoop ksaMember role members)
      else ksaMemberLoop ksaMember role members)"

fun ksaBindingLoop :: "string \<Rightarrow> binding list \<Rightarrow> bool" where
  "ksaBindingLoop ksaMember [] = False"
| "ksaBindingLoop ksaMember (b # bindings) =
     (if ksaMemberLoop ksaMember (Role b) (Members b) then True
      else ksaBindingLoop ksaMember bindings)"

text \<open>
  The loops of \<^verbatim>\<open>getGSAsRolesOnProject\<close>: the inner one tells whether it left through
  its \<^verbatim>\<open>break\<close>, which it does right after appending the role of the binding.
\<close>

fun gsaMemberLoop :: "string \<Rightarrow> string list \<Rightarrow> bool" where
  "gsaMemberLoop gsaMember [] = False"
| "gsaMemberLoop gsaMember (member # members) =
     (if member = gsaMember then True else gsaMemberLoop gsaMember members)"

fun gsaBindingLoop :: "string \<Rightarrow> binding list \<Rightarrow> string list \<Rightarrow> string list" where
  "gsaBindingLoop gsaMember [] roles = roles"
| "gsaBindingLoop gsaMember (b # bindings) roles =
     gsaBindingLoop gsaMember bindings
       (if gsaMemberLoop gsaMember (Members b) then roles @ [Role b] else roles)"

subsection \<open>The outside world and the order of the calls\<close>

text \<open>
  Everything the program learns comes from calls that leave it: the kubeconfig loaders of
  client-go, the operating system (current user, files, the \<^verbatim>\<open>gcloud\<close> command), the
  Kubernetes API server, and the GKE, IAM and Resource Manager APIs. A \<open>world\<close> fixes
  the reply of each such call (\<open>Inl\<close> an error, \<open>Inr\<close> the value); a run records the
  calls it makes, in order. Only the parts of a reply that the program reads are kept:
  of a user the home directory, of a Pod the service account name, of a service account
  the annotations, of a kubeconfig file the \<^verbatim>\<open>current-context\<close>, of a cluster the
  workload pool (\<open>None\<close> where \<^verbatim>\<open>WorkloadIdentityConfig\<close> is nil).
  \<^verbatim>\<open>filepath.Join\<close> is taken as it is.
\<close>

type_synonym config = nat
type_synonym client = nat
type_synonym osfile = nat

datatype call =
    Call_BuildConfigFromFlags string string
  | Call_InClusterConfig
  | Call_user_Current
  | Call_NewForConfig
  | Call_Pods_Get string string
  | Call_ServiceAccounts_Get string string
  | Call_os_Open string
  | Call_yaml_Decode
  | Call_container_NewService
  | Call_Clusters_Get string
  | Call_iam_NewService
  | Call_ServiceAccounts_GetIamPolicy string
  | Call_cloudresourcemanager_NewService
  | Call_Projects_GetIamPolicy string
  | Call_exec_Output string "string list"

record world =
  BuildConfigFromFlags :: "string \<Rightarrow> string \<Rightarrow> error + config"
  InClusterConfig :: "error + config"
  user_Current :: "error + string"
  filepath_Join :: "string list \<Rightarrow> string"
  NewForConfig :: "config \<Rightarrow> error + client"
  Pods_Get :: "client \<Rightarrow> string \<Rightarrow> string \<Rightarrow> error + string"
  ServiceAccounts_Get :: "client \<Rightarrow> string \<Rightarrow> string \<Rightarrow> error + (string \<rightharpoonup> string)"
  os_Open :: "string \<Rightarrow> error + osfile"
  yaml_Decode :: "osfile \<Rightarrow> error + string"
  container_NewService :: "error + unit"
  Clusters_Get :: "string \<Rightarrow> error + string option"
  iam_NewService :: "error + unit"
  ServiceAccounts_GetIamPolicy :: "string \<Rightarrow> error + policy"
  cloudresourcemanager_NewService :: "error + unit"
  Projects_GetIamPolicy :: "string \<Rightarrow> error + policy"
  exec_Output :: "string \<Rightarrow> string list \<Rightarrow> error + string"

text \<open>
  A computation takes the calls made so far and gives its result with the calls made
  up to then. \<open>bnd\<close> is sequencing: a panic or an exit ends the run.
\<close>

type_synonym 'a io = "call list \<Rightarrow> 'a result \<times> call list"

definition ret :: "'a \<Rightarrow> 'a io" where
  "ret x = (\<lambda>calls. (Returned x, calls))"

definition lift :: "'a result \<Rightarrow> 'a io" where
  "lift r = (\<lambda>calls. (r, calls))"

definition fatal :: "exit \<Rightarrow> 'a io" where
  "fatal e = (\<lambda>calls. (Exited e, calls))"

definition extern :: "call \<Rightarrow> 'a \<Rightarrow> 'a io" where
  "extern c reply = (\<lambda>calls. (Returned reply, calls @ [c]))"

definition bnd :: "'a io \<Rightarrow> ('a \<Rightarrow> 'b io) \<Rightarrow> 'b io" where
  "bnd m f =
     (\<lambda>calls. case m calls of
        (Returned x, calls') \<Rightarrow> f x calls'
      | (Panicked p, calls') \<Rightarrow> (Panicked p, calls')
      | (Exited e, calls') \<Rightarrow> (Exited e, calls'))"

subsection \<open>The lookups\<close>

definition wiGSAAnnotation :: string where
  "wiGSAAnnotation = ''iam.gke.io/gcp-service-account''"

definition getPodKSA :: "world \<Rightarrow> client \<Rightarrow> string \<Rightarrow> string \<Rightarrow> (string \<times> error option) io" where
  "getPodKSA w client ns podName =
     bnd (extern (Call_Pods_Get ns podName) (Pods_Get w client ns podName)) (\<lambda>pod.
     case pod of
       Inl err \<Rightarrow> ret ('''', Some err)
     | Inr serviceAccountName \<Rightarrow> ret (serviceAccountName, None))"

definition getKSAsWIAnotation :: "world \<Rightarrow> client \<Rightarrow> string \<Rightarrow> string \<Rightarrow> (string \<times> error option) io" where
  "getKSAsWIAnotation w client ns ksaName =
     bnd (extern (Call_ServiceAccounts_Get ns ksaName) (ServiceAccounts_Get w client ns ksaName)) (\<lambda>ksa.
     case ksa of
       Inl err \<Rightarrow> ret ('''', Some err)
     | Inr annotations \<Rightarrow>
         (case annotations wiGSAAnnotation of
            None \<Rightarrow> ret ('''', Some (Errorf ''ksa does not have the WI annotation, %q'' [wiGSAAnnotation] None))
          | Some gsa \<Rightarrow> ret (gsa, None)))"

definition ksaHasAccessToGSA ::
    "world \<Rightarrow> string \<Rightarrow> string \<Rightarrow> string \<Rightarrow> string \<Rightarrow> (bool \<times> error option) io" where
  "ksaHasAccessToGSA w wiPool ns ksaName gsaEmail =
     bnd (extern Call_iam_NewService (iam_NewService w)) (\<lambda>iamSVC.
     case iamSVC of
       Inl err \<Rightarrow> ret (False, Some (Errorf ''creating IAM.Service: %w'' [] (Some err)))
     | Inr _ \<Rightarrow>
         bnd (lift (getGSAAPIResource gsaEmail)) (\<lambda>gsaAPIResource.
         bnd (extern (Call_ServiceAccounts_GetIamPolicy gsaAPIResource)
                (ServiceAccounts_GetIamPolicy w gsaAPIResource)) (\<lambda>gsaPolicy.
         case gsaPolicy of
           Inl err \<Rightarrow> ret (False, Some (Errorf ''getting GSA %q IAMPolicy: %w'' [gsaAPIResource] (Some err)))
         | Inr gsaPolicy \<Rightarrow>
             (let ksaMember = ksaIAMPolicyMember wiPool ns ksaName in
              if ksaBindingLoop ksaMember (Bindings gsaPolicy) then ret (True, None)
              else ret (False, None)))))"

definition getWIPool :: "world \<Rightarrow> string \<Rightarrow> (string \<times> error option) io" where
  "getWIPool w clusterAPIName =
     bnd (extern Call_container_NewService (container_NewService w)) (\<lambda>gkeSVC.
     case gkeSVC of
       Inl err \<Rightarrow> ret ('''', Some (Errorf ''creating GKE.Service: %w'' [] (Some err)))
     | Inr _ \<Rightarrow>
         bnd (extern (Call_Clusters_Get clusterAPIName) (Clusters_Get w clusterAPIName)) (\<lambda>cluster.
         case cluster of
           Inl err \<Rightarrow> ret ('''', Some (Errorf ''getting GKE Cluster %q: %w'' [clusterAPIName] (Some err)))
         | Inr workloadIdentityConfig \<Rightarrow>
             (case workloadIdentityConfig of
                None \<Rightarrow> lift (Panicked NilDereference)
              | Some workloadPool \<Rightarrow> ret (workloadPool, None))))"

definition getGSAsRolesOnProject :: "world \<Rightarrow> string \<Rightarrow> string \<Rightarrow> (string list \<times> error option) io" where
  "getGSAsRolesOnProject w project gsaEmail =
     bnd (extern Call_cloudresourcemanager_NewService (cloudresourcemanager_NewService w)) (\<lambda>crmSVC.
     case crmSVC of
       Inl err \<Rightarrow> ret ([], Some (Errorf ''creating CloudResourceManager.Service: %w'' [] (Some err)))
     | Inr _ \<Rightarrow>
         bnd (extern (Call_Projects_GetIamPolicy project) (Projects_GetIamPolicy w project)) (\<lambda>iamPolicy.
         case iamPolicy of
           Inl err \<Rightarrow> ret ([], Some (Errorf ''getting Project %q IAMPolicy: %w'' [project] (Some err)))
         | Inr iamPolicy \<Rightarrow>
             (let gsaMember = gsaIAMPolicyMember gsaEmail in
              ret (gsaBindingLoop gsaMember (Bindings iamPolicy) [], None))))"

definition determineProject :: "world \<Rightarrow> string \<Rightarrow> (string \<times> error option) io" where
  "determineProject w projectFlagValue =
     (if projectFlagValue \<noteq> '''' then ret (projectFlagValue, None)
      else
        bnd (extern (Call_exec_Output ''gcloud'' [''config'', ''get-value'', ''core/project''])
               (exec_Output w ''gcloud'' [''config'', ''get-value'', ''core/project''])) (\<lambda>out.
        case out of
          Inl err \<Rightarrow> ret ('''', Some err)
        | Inr p \<Rightarrow> ret (TrimSpace p, None)))"

definition GetRESTConfig :: "world \<Rightarrow> string \<Rightarrow> string \<Rightarrow> (config option \<times> error option) io" where
  "GetRESTConfig w serverURL kubeconfig =
     (if kubeconfig \<noteq> '''' then
        bnd (extern (Call_BuildConfigFromFlags serverURL kubeconfig)
               (BuildConfigFromFlags w serverURL kubeconfig)) (\<lambda>c.
        case c of
          Inl err \<Rightarrow> ret (None, Some err)
        | Inr c \<Rightarrow> ret (Some c, None))
      else
        bnd (extern Call_InClusterConfig (InClusterConfig w)) (\<lambda>c.
        case c of
          Inr c \<Rightarrow> ret (Some c, None)
        | Inl _ \<Rightarrow>
            bnd (extern Call_user_Current (user_Current w)) (\<lambda>usr.
            case usr of
              Inr homeDir \<Rightarrow>
                (let path = filepath_Join w [homeDir, ''.kube'', ''config''] in
                 bnd (extern (Call_BuildConfigFromFlags '''' path) (BuildConfigFromFlags w '''' path)) (\<lambda>c.
                 case c of
                   Inr c \<Rightarrow> ret (Some c, None)
                 | Inl _ \<Rightarrow> ret (None, Some (New ''could not create a valid kubeconfig''))))
            | Inl _ \<Rightarrow> ret (None, Some (New ''could not create a valid kubeconfig'')))))"

definition getClusterFromKubeconfig :: "world \<Rightarrow> (string \<times> string \<times> string \<times> error option) io" where
  "getClusterFromKubeconfig w =
     bnd (extern Call_user_Current (user_Current w)) (\<lambda>usr.
     case usr of
       Inl err \<Rightarrow> ret ('''', '''', '''', None)
     | Inr homeDir \<Rightarrow>
         (let fp = filepath_Join w [homeDir, ''.kube'', ''config''] in
          bnd (extern (Call_os_Open fp) (os_Open w fp)) (\<lambda>f.
          case f of
            Inl err \<Rightarrow> ret ('''', '''', '''', Some err)
          | Inr f \<Rightarrow>
              bnd (extern Call_yaml_Decode (yaml_Decode w f)) (\<lambda>kc.
              case kc of
                Inl err \<Rightarrow> ret ('''', '''', '''', Some err)
              | Inr currentContext \<Rightarrow>
                  (let sp = Split currentContext CHR ''_'' in
                   bnd (lift (index sp 1)) (\<lambda>sp1.
                   bnd (lift (index sp 2)) (\<lambda>sp2.
                   bnd (lift (index sp 3)) (\<lambda>sp3.
                   ret (sp1, sp2, sp3, None)))))))))"

subsection \<open>The program\<close>

text \<open>The values of the command-line flags after \<^verbatim>\<open>flag.Parse\<close>.\<close>

record flags =
  serverFlag :: string
  kubeconfigFlag :: string
  ksaFlag :: string
  nsFlag :: string
  podFlag :: string
  projectFlag :: string
  clusterProjectFlag :: string
  clusterLocationFlag :: string
  clusterNameFlag :: string

text \<open>\<^verbatim>\<open>kubernetes.NewForConfigOrDie\<close>: the client, or a panic with the error.\<close>

definition NewForConfigOrDie :: "world \<Rightarrow> config option \<Rightarrow> client io" where
  "NewForConfigOrDie w cfg =
     (case cfg of
        None \<Rightarrow> lift (Panicked NilDereference)
      | Some c \<Rightarrow>
          bnd (extern Call_NewForConfig (NewForConfig w c)) (\<lambda>cs.
          case cs of
            Inl err \<Rightarrow> lift (Panicked (OrDie err))
          | Inr cs \<Rightarrow> ret cs))"

text \<open>
  \<^verbatim>\<open>main\<close> is one straight line of lookups. It is written in four parts, each being the
  function from one statement to its end, with the variables in scope there as
  arguments: \<open>main_roles\<close> from the call of \<^verbatim>\<open>determineProject\<close>, \<open>main_access\<close> from the
  access check, \<open>main_cluster\<close> from the reading of the kubeconfig, and \<open>main\<close> itself
  from the top. \<^verbatim>\<open>log.Fatal\<close> and \<^verbatim>\<open>log.Fatalf\<close> end the process.
\<close>

definition main_roles :: "world \<Rightarrow> flags \<Rightarrow> arg \<Rightarrow> string \<Rightarrow> string \<Rightarrow> printed io" where
  "main_roles w fl prefix ksa gsa =
     bnd (determineProject w (projectFlag fl)) (\<lambda>(project, err).
     case err of
       Some err \<Rightarrow> fatal (LogFatalf ''Error getting project: %w'' [AError err])
     | None \<Rightarrow>
         bnd (getGSAsRolesOnProject w project gsa) (\<lambda>(roles, err).
         case err of
           Some err \<Rightarrow>
             fatal (LogFatalf ''Error getting the GSA %q's roles on project %q: %v''
               [AString gsa, AString project, AError err])
         | None \<Rightarrow>
             ret (Printf ''%sKSA %q, which links to GSA %q, whose roles on the project %q are %v\<newline>''
                    [prefix, AString ksa, AString gsa, AString project, AStrings roles])))"

definition main_access :: "world \<Rightarrow> flags \<Rightarrow> arg \<Rightarrow> string \<Rightarrow> string \<Rightarrow> string \<Rightarrow> printed io" where
  "main_access w fl prefix ksa gsa wiPool =
     bnd (ksaHasAccessToGSA w wiPool (nsFlag fl) ksa gsa) (\<lambda>(hasAccess, err).
     case err of
       Some err \<Rightarrow> fatal (LogFatalf ''Error checking the KSAs access on the GSA: %v'' [AError err])
     | None \<Rightarrow>
         if \<not> hasAccess then
           fatal (LogFatalf
             ''%sKSA %q, which links to GSA %q, but that GSA does not grant access to the KSA''
             [prefix, AString ksa, AString gsa])
         else main_roles w fl prefix ksa gsa)"

definition main_cluster :: "world \<Rightarrow> flags \<Rightarrow> arg \<Rightarrow> string \<Rightarrow> string \<Rightarrow> printed io" where
  "main_cluster w fl prefix ksa gsa =
     bnd (getClusterFromKubeconfig w) (\<lambda>(p, l, n, err).
     let (clusterProject, clusterLocation, clusterName) =
           (if err = None then (p, l, n)
            else (clusterProjectFlag fl, clusterLocationFlag fl, clusterNameFlag fl)) in
     bnd (getWIPool w (getClusterAPIName clusterProject clusterLocation clusterName)) (\<lambda>(wiPool, err).
     case err of
       Some err \<Rightarrow> fatal (LogFatalf ''Error getting WI Pool: %v'' [AError err])
     | None \<Rightarrow> main_access w fl prefix ksa gsa wiPool))"

definition main :: "world \<Rightarrow> flags \<Rightarrow> printed io" where
  "main w fl =
     (let pod = podFlag fl; ksa = ksaFlag fl in
      if (ksa \<noteq> '''') = (pod \<noteq> '''') then
        fatal (LogFatal [AString ''Exactly one of --ksa and --pod must be specified.''])
      else
        bnd (GetRESTConfig w (serverFlag fl) (kubeconfigFlag fl)) (\<lambda>(cfg, err).
        case err of
          Some err \<Rightarrow> fatal (LogFatal [AString ''Error building kubeconfig: '', AError err])
        | None \<Rightarrow>
            bnd (NewForConfigOrDie w cfg) (\<lambda>client.
            bnd (if pod \<noteq> '''' then
                   bnd (getPodKSA w client (nsFlag fl) pod) (\<lambda>(ksa, err).
                   case err of
                     Some err \<Rightarrow> fatal (LogFatalf ''Error getting the Pod's KSA: %v'' [AError err])
                   | None \<Rightarrow> ret (ASprintf ''Pod %q uses '' [AString pod], ksa))
                 else ret (AString '''', ksa)) (\<lambda>(prefix, ksa).
            bnd (getKSAsWIAnotation w client (nsFlag fl) ksa) (\<lambda>(gsa, err).
            case err of
              Some err \<Rightarrow> fatal (LogFatalf ''Error getting the KSA's WI annotation: %v'' [AError err])
            | None \<Rightarrow> main_cluster w fl prefix ksa gsa)))))"

subsection \<open>An example run\<close>

text \<open>
  A small world for the examples: a developer machine outside the cluster whose
  kubeconfig points at the cluster \<^verbatim>\<open>cluster-1\<close> of project \<^verbatim>\<open>my-proj\<close>; the KSA
  \<^verbatim>\<open>default/agent\<close> is annotated with a GSA of the same project, which grants it
  \<^verbatim>\<open>roles/iam.workloadIdentityUser\<close>; the KSA \<^verbatim>\<open>default/reader\<close> has the same
  annotation but is only a \<^verbatim>\<open>roles/viewer\<close> of that GSA.
\<close>

definition exampleGSA :: string where
  "exampleGSA = ''gsa@my-proj.iam.gserviceaccount.com''"

definition exampleGSAPolicy :: policy where
  "exampleGSAPolicy =
     \<lparr>Bindings =
        [\<lparr>Role = ''roles/viewer'',
          Members = [''serviceAccount:my-proj.svc.id.goog[default/agent]'',
                     ''serviceAccount:my-proj.svc.id.goog[default/reader]'']\<rparr>,
         \<lparr>Role = ''roles/iam.workloadIdentityUser'',
          Members = [''user:dev@example.com'',
                     ''serviceAccount:my-proj.svc.id.goog[default/agent]'']\<rparr>]\<rparr>"

definition exampleProjectPolicy :: policy where
  "exampleProjectPolicy =
     \<lparr>Bindings =
        [\<lparr>Role = ''roles/storage.admin'',
          Members = [''serviceAccount:gsa@my-proj.iam.gserviceaccount.com'']\<rparr>,
         \<lparr>Role = ''roles/viewer'',
          Members = [''user:dev@example.com'']\<rparr>,
         \<lparr>Role = ''roles/pubsub.editor'',
          Members = [''user:dev@example.com'',
                     ''serviceAccount:gsa@my-proj.iam.gserviceaccount.com'',
                     ''serviceAccount:gsa@my-proj.iam.gserviceaccount.com'']\<rparr>]\<rparr>"

definition exampleWorld :: world where
  "exampleWorld =
     \<lparr>BuildConfigFromFlags = (\<lambda>serverURL kubeconfig. Inr 0),
      InClusterConfig = Inl (LibError ''not running in a cluster''),
      user_Current = Inr ''/home/dev'',
      filepath_Join = (\<lambda>elems. case elems of [] \<Rightarrow> [] | e # es \<Rightarrow> e @ concat (map (\<lambda>x. ''/'' @ x) es)),
      NewForConfig = (\<lambda>cfg. Inr 0),
      Pods_Get = (\<lambda>client ns name.
        if ns = ''default'' \<and> name = ''agent-8948bd7b-vz5wp'' then Inr ''agent''
        else Inl (LibError ''pod not found'')),
      ServiceAccounts_Get = (\<lambda>client ns name.
        if ns = ''default'' \<and> (name = ''agent'' \<or> name = ''reader'')
        then Inr [wiGSAAnnotation \<mapsto> exampleGSA]
        else Inl (LibError ''service account not found'')),
      os_Open = (\<lambda>path. if path = ''/home/dev/.kube/config'' then Inr 0 else Inl (LibError ''no such file'')),
      yaml_Decode = (\<lambda>f. Inr ''gke_my-proj_us-central1_cluster-1''),
      container_NewService = Inr (),
      Clusters_Get = (\<lambda>name.
        if name = ''projects/my-proj/locations/us-central1/clusters/cluster-1''
        then Inr (Some ''my-proj.svc.id.goog'')
        else Inl (LibError ''cluster not found'')),
      iam_NewService = Inr (),
      ServiceAccounts_GetIamPolicy = (\<lambda>resource.
        if resource = ''projects/my-proj/serviceAccounts/gsa@my-proj.iam.gserviceaccount.com''
        then Inr exampleGSAPolicy
        else Inl (LibError ''service account not found'')),
      cloudresourcemanager_NewService = Inr (),
      Projects_GetIamPolicy = (\<lambda>project.
        if project = ''my-proj'' then Inr exampleProjectPolicy
        else Inl (LibError ''project not found'')),
      exec_Output = (\<lambda>name args. Inr (''my-proj'' @ [CHR 0x0A]))\<rparr>"

definition exampleFlags :: flags where
  "exampleFlags =
     \<lparr>serverFlag = '''',
      kubeconfigFlag = ''/home/dev/.kube/config'',
      ksaFlag = ''agent'',
      nsFlag = ''default'',
      podFlag = '''',
      projectFlag = '''',
      clusterProjectFlag = '''',
      clusterLocationFlag = '''',
      clusterNameFlag = ''''\<rparr>"

text \<open>
  A computation passes an exit \<open>v\<close> when it never ends the process with \<open>v\<close> and only
  adds to the calls made.
\<close>

abbreviation passes :: "exit \<Rightarrow> 'a io \<Rightarrow> bool" where
  "passes v m \<equiv> (\<forall>calls. fst (m calls) \<noteq> Exited v \<and> (\<exists>ext. snd (m calls) = calls @ ext))"


section \<open>Properties\<close>

subsection \<open>Splitting\<close>

lemma IndexByte_None_iff: "IndexByte s c = None \<longleftrightarrow> c \<notin> set s"
  by (induction s) auto

lemma IndexByte_append: "c \<notin> set a \<Longrightarrow> IndexByte (a @ c # r) c = Some (length a)"
  by (induction a) auto

lemma IndexByte_Some:
  "IndexByte s c = Some m \<Longrightarrow> m < length s \<and> s ! m = c \<and> c \<notin> set (take m s)"
  by (induction s arbitrary: m) (auto split: if_splits)

lemma Split_absent: "c \<notin> set s \<Longrightarrow> Split s c = [s]"
  by (subst Split.simps) (simp add: IndexByte_None_iff [THEN iffD2])

lemma Split_first: "c \<notin> set a \<Longrightarrow> Split (a @ c # r) c = a # Split r c"
  by (subst Split.simps) (simp add: IndexByte_append)

text \<open>A string with \<open>n\<close> separators splits into \<open>n + 1\<close> pieces.\<close>

lemma length_Split: "length (Split s c) = Suc (count_list s c)"
proof (induction s c rule: Split.induct)
  case (1 s sep)
  show ?case
  proof (cases "IndexByte s sep")
    case None
    then have "sep \<notin> set s"
      by (simp add: IndexByte_None_iff)
    then show ?thesis
      by (simp add: Split_absent count_list_0_iff)
  next
    case (Some m)
    then have m: "m < length s" "s ! m = sep" "sep \<notin> set (take m s)"
      by (auto dest: IndexByte_Some)
    then have s: "s = take m s @ sep # drop (m + 1) s"
      using id_take_nth_drop [of m s] by simp
    have "count_list s sep = count_list (take m s @ sep # drop (m + 1) s) sep"
      using s by simp
    also have "\<dots> = Suc (count_list (drop (m + 1) s) sep)"
      using m(3) by (simp add: count_list_0_iff)
    finally have c: "count_list s sep = Suc (count_list (drop (m + 1) s) sep)" .
    have "Split s sep = take m s # Split (drop (m + 1) s) sep"
      by (subst Split.simps) (simp add: Some)
    with 1 [OF Some] c show ?thesis
      by simp
  qed
qed

lemma takeWhile_absent: "c \<notin> set s \<Longrightarrow> takeWhile (\<lambda>x. x \<noteq> c) s = s"
  by (induction s) auto

lemma takeWhile_sep: "c \<notin> set a \<Longrightarrow> takeWhile (\<lambda>x. x \<noteq> c) (a @ c # r) = a"
  by (induction a) auto

lemma takeWhile_pass:
  "c \<notin> set a \<Longrightarrow> takeWhile (\<lambda>x. x \<noteq> c) (a @ r) = a @ takeWhile (\<lambda>x. x \<noteq> c) r"
  by (induction a) auto

text \<open>The first piece is what stands before the first separator.\<close>

lemma Split_head: "Split s c ! 0 = takeWhile (\<lambda>x. x \<noteq> c) s"
proof (cases "c \<in> set s")
  case False
  then show ?thesis
    by (simp add: Split_absent takeWhile_absent)
next
  case True
  then obtain a r where "s = a @ c # r" and "c \<notin> set a"
    by (auto dest: split_list_first)
  then show ?thesis
    by (simp add: Split_first takeWhile_sep)
qed

subsection \<open>Principals and resource names\<close>

text \<open>
  Claim C2. For every pool \<open>P\<close>, namespace \<open>N\<close> and KSA name \<open>K\<close>, the principal that
  \<open>ksaIAMPolicyMember\<close> synthesizes is exactly \<^verbatim>\<open>serviceAccount:P[N/K]\<close>.
\<close>

theorem ksaIAMPolicyMember_format:
  "ksaIAMPolicyMember P N K = ''serviceAccount:'' @ P @ ''['' @ N @ ''/'' @ K @ '']''"
  by (simp add: ksaIAMPolicyMember_def)

lemma gsaIAMPolicyMember_format: "gsaIAMPolicyMember gsaEmail = ''serviceAccount:'' @ gsaEmail"
  by (simp add: gsaIAMPolicyMember_def)

lemma getClusterAPIName_format:
  "getClusterAPIName project location name =
     ''projects/'' @ project @ ''/locations/'' @ location @ ''/clusters/'' @ name"
  by (simp add: getClusterAPIName_def)

text \<open>
  For an email with an \<^verbatim>\<open>@\<close>, the project is what stands between the first \<^verbatim>\<open>@\<close> and
  the next \<^verbatim>\<open>@\<close> or \<^verbatim>\<open>.\<close> (or the end).
\<close>

lemma getGSAAPIResource_at:
  assumes "CHR ''@'' \<notin> set a"
  shows "getGSAAPIResource (a @ ''@'' @ d) =
    Returned (''projects/''
      @ takeWhile (\<lambda>x. x \<noteq> CHR ''.'') (takeWhile (\<lambda>x. x \<noteq> CHR ''@'') d)
      @ ''/serviceAccounts/'' @ a @ ''@'' @ d)"
proof -
  have "Split (a @ CHR ''@'' # d) CHR ''@'' = a # Split d CHR ''@''"
    using assms by (rule Split_first)
  moreover have "length (Split d CHR ''@'') > 0"
    by (simp add: length_Split)
  ultimately have "index (Split (a @ ''@'' @ d) CHR ''@'') 1 = Returned (takeWhile (\<lambda>x. x \<noteq> CHR ''@'') d)"
    by (simp add: index_def Split_head)
  moreover have "index (Split s CHR ''.'') 0 = Returned (takeWhile (\<lambda>x. x \<noteq> CHR ''.'') s)" for s
    by (simp add: index_def length_Split Split_head)
  ultimately show ?thesis
    by (simp add: getGSAAPIResource_def andThen_def)
qed

text \<open>
  Claim C3. For a GSA email \<open>a@b.rest\<close> (such as \<^verbatim>\<open>a@b.iam.gserviceaccount.com\<close>), where
  \<open>a\<close> holds no \<^verbatim>\<open>@\<close> and \<open>b\<close> neither \<^verbatim>\<open>@\<close> nor \<^verbatim>\<open>.\<close>, the project that
  \<open>getGSAAPIResource\<close> extracts by splitting at \<^verbatim>\<open>@\<close> and then at \<^verbatim>\<open>.\<close> is \<open>b\<close>, and the
  resource it returns is \<^verbatim>\<open>projects/b/serviceAccounts/\<close> followed by the whole email.
\<close>

theorem getGSAAPIResource_project:
  assumes "CHR ''@'' \<notin> set a" and "CHR ''@'' \<notin> set b" and "CHR ''.'' \<notin> set b"
  shows "getGSAAPIResource (a @ ''@'' @ b @ ''.'' @ rest) =
    Returned (''projects/'' @ b @ ''/serviceAccounts/'' @ (a @ ''@'' @ b @ ''.'' @ rest))"
proof -
  have "takeWhile (\<lambda>x. x \<noteq> CHR ''@'') (b @ ''.'' @ rest) =
      b @ CHR ''.'' # takeWhile (\<lambda>x. x \<noteq> CHR ''@'') rest"
    using assms(2) by (simp add: takeWhile_pass)
  then have "takeWhile (\<lambda>x. x \<noteq> CHR ''.'') (takeWhile (\<lambda>x. x \<noteq> CHR ''@'') (b @ ''.'' @ rest)) = b"
    using assms(3) by (simp add: takeWhile_sep)
  with getGSAAPIResource_at [OF assms(1), of "b @ ''.'' @ rest"] show ?thesis
    by simp
qed

theorem getGSAAPIResource_project_witness:
  "CHR ''@'' \<notin> set ''agent'' \<and> CHR ''@'' \<notin> set ''my-proj'' \<and> CHR ''.'' \<notin> set ''my-proj'' \<and>
   getGSAAPIResource ''agent@my-proj.iam.gserviceaccount.com'' =
     Returned ''projects/my-proj/serviceAccounts/agent@my-proj.iam.gserviceaccount.com''"
  using getGSAAPIResource_project [of "''agent''" "''my-proj''" "''iam.gserviceaccount.com''"]
  by simp

text \<open>
  Claim C9. \<open>getGSAAPIResource\<close> is partial: for an email without \<^verbatim>\<open>@\<close> (the empty
  string, say) the split at \<^verbatim>\<open>@\<close> has one piece, the index 1 is out of range and the
  function panics; it returns neither a value nor an error.
\<close>

theorem getGSAAPIResource_panics:
  "CHR ''@'' \<notin> set gsaEmail \<Longrightarrow> getGSAAPIResource gsaEmail = Panicked (IndexOutOfRange 1 1)"
  by (simp add: getGSAAPIResource_def Split_absent index_def andThen_def)

theorem getGSAAPIResource_panics_witness:
  "CHR ''@'' \<notin> set '''' \<and> getGSAAPIResource '''' = Panicked (IndexOutOfRange 1 1)"
  using getGSAAPIResource_panics [of "''''"] by simp

subsection \<open>Sequencing\<close>

lemma bnd_ret: "bnd (ret x) f calls = f x calls"
  by (simp add: bnd_def ret_def)

lemma bnd_extern: "bnd (extern c reply) f calls = f reply (calls @ [c])"
  by (simp add: bnd_def extern_def)

lemma bnd_lift_Returned: "bnd (lift (Returned x)) f calls = f x calls"
  by (simp add: bnd_def lift_def)

lemma bnd_lift_Panicked: "bnd (lift (Panicked p)) f calls = (Panicked p, calls)"
  by (simp add: bnd_def lift_def)

lemma bnd_lift_Exited: "bnd (lift (Exited e)) f calls = (Exited e, calls)"
  by (simp add: bnd_def lift_def)

lemma bnd_fatal: "bnd (fatal e) f calls = (Exited e, calls)"
  by (simp add: bnd_def fatal_def)

lemmas io_simps = bnd_ret bnd_extern bnd_lift_Returned bnd_lift_Panicked bnd_lift_Exited bnd_fatal

lemma bnd_Returned: "m calls = (Returned x, calls') \<Longrightarrow> bnd m f calls = f x calls'"
  by (simp add: bnd_def)

lemma bnd_Panicked: "m calls = (Panicked p, calls') \<Longrightarrow> bnd m f calls = (Panicked p, calls')"
  by (simp add: bnd_def)

lemma bnd_Exited: "m calls = (Exited e, calls') \<Longrightarrow> bnd m f calls = (Exited e, calls')"
  by (simp add: bnd_def)

subsection \<open>The access check\<close>

lemma ksaMemberLoop_iff:
  "ksaMemberLoop ksaMember role members \<longleftrightarrow> role \<in> ksaRoles \<and> ksaMember \<in> set members"
  by (induction members) auto

lemma ksaBindingLoop_iff:
  "ksaBindingLoop ksaMember bindings \<longleftrightarrow>
     (\<exists>b \<in> set bindings. Role b \<in> ksaRoles \<and> ksaMember \<in> set (Members b))"
  by (induction bindings) (auto simp: ksaMemberLoop_iff)

text \<open>The run of \<open>ksaHasAccessToGSA\<close>, case by case.\<close>

lemma ksaHasAccessToGSA_run:
  "ksaHasAccessToGSA w wiPool ns ksaName gsaEmail calls =
     (case iam_NewService w of
        Inl err \<Rightarrow> (Returned (False, Some (Errorf ''creating IAM.Service: %w'' [] (Some err))),
                    calls @ [Call_iam_NewService])
      | Inr _ \<Rightarrow>
          (case getGSAAPIResource gsaEmail of
             Returned res \<Rightarrow>
               (case ServiceAccounts_GetIamPolicy w res of
                  Inl err \<Rightarrow> (Returned (False, Some (Errorf ''getting GSA %q IAMPolicy: %w'' [res] (Some err))),
                              calls @ [Call_iam_NewService, Call_ServiceAccounts_GetIamPolicy res])
                | Inr pol \<Rightarrow>
                    (Returned (ksaBindingLoop (ksaIAMPolicyMember wiPool ns ksaName) (Bindings pol), None),
                     calls @ [Call_iam_NewService, Call_ServiceAccounts_GetIamPolicy res]))
           | Panicked p \<Rightarrow> (Panicked p, calls @ [Call_iam_NewService])
           | Exited e \<Rightarrow> (Exited e, calls @ [Call_iam_NewService])))"
proof (cases "iam_NewService w")
  case (Inl err)
  then show ?thesis
    by (simp add: ksaHasAccessToGSA_def io_simps ret_def)
next
  case svc: (Inr svc)
  show ?thesis
  proof (cases "getGSAAPIResource gsaEmail")
    case (Returned res)
    with svc show ?thesis
      by (cases "ServiceAccounts_GetIamPolicy w res")
         (simp_all add: ksaHasAccessToGSA_def io_simps ret_def)
  next
    case (Panicked p)
    with svc show ?thesis
      by (simp add: ksaHasAccessToGSA_def io_simps)
  next
    case (Exited e)
    with svc show ?thesis
      by (simp add: ksaHasAccessToGSA_def io_simps)
  qed
qed

text \<open>
  The decision of the access check in terms of the program's own table of roles and
  its own function for the principal.
\<close>

lemma ksaHasAccessToGSA_decision:
  "(fst (ksaHasAccessToGSA w wiPool ns ksaName gsaEmail calls) = Returned (True, None) \<longleftrightarrow>
      (\<exists>res pol.
         iam_NewService w = Inr () \<and> getGSAAPIResource gsaEmail = Returned res \<and>
         ServiceAccounts_GetIamPolicy w res = Inr pol \<and>
         (\<exists>b \<in> set (Bindings pol).
            Role b \<in> ksaRoles \<and> ksaIAMPolicyMember wiPool ns ksaName \<in> set (Members b))))
   \<and> (\<forall>res pol.
         iam_NewService w = Inr () \<and> getGSAAPIResource gsaEmail = Returned res \<and>
         ServiceAccounts_GetIamPolicy w res = Inr pol
         \<longrightarrow> fst (ksaHasAccessToGSA w wiPool ns ksaName gsaEmail calls) =
               Returned ((\<exists>b \<in> set (Bindings pol).
                            Role b \<in> ksaRoles \<and>
                            ksaIAMPolicyMember wiPool ns ksaName \<in> set (Members b)), None))"
  by (auto simp: ksaHasAccessToGSA_run ksaBindingLoop_iff split: sum.splits result.splits)

text \<open>
  Claim C1. \<open>ksaHasAccessToGSA\<close> reports access granted, \<^verbatim>\<open>(true, nil)\<close>, if and only
  if the IAM policy it fetched for the GSA has a binding whose role is one of the four
  roles \<^verbatim>\<open>roles/iam.workloadIdentityUser\<close>, \<^verbatim>\<open>roles/iam.serviceAccountTokenCreator\<close>,
  \<^verbatim>\<open>roles/editor\<close>, \<^verbatim>\<open>roles/owner\<close> and whose members contain a string equal to the
  synthesized KSA principal \<^verbatim>\<open>serviceAccount:P[N/K]\<close>. For every policy that the IAM
  service returns, the answer is \<^verbatim>\<open>(true, nil)\<close> when there is such a binding and
  \<^verbatim>\<open>(false, nil)\<close> when there is none, however near a binding comes (a role outside
  the four, or a member that differs in a character).
\<close>

theorem ksaHasAccessToGSA_granted_iff:
  "(fst (ksaHasAccessToGSA w wiPool ns ksaName gsaEmail calls) = Returned (True, None) \<longleftrightarrow>
      (\<exists>res pol.
         iam_NewService w = Inr () \<and> getGSAAPIResource gsaEmail = Returned res \<and>
         ServiceAccounts_GetIamPolicy w res = Inr pol \<and>
         (\<exists>b \<in> set (Bindings pol).
            Role b \<in> {''roles/iam.workloadIdentityUser'',
                      ''roles/iam.serviceAccountTokenCreator'',
                      ''roles/editor'',
                      ''roles/owner''} \<and>
            ''serviceAccount:'' @ wiPool @ ''['' @ ns @ ''/'' @ ksaName @ '']'' \<in> set (Members b))))
   \<and> (\<forall>res pol.
         iam_NewService w = Inr () \<and> getGSAAPIResource gsaEmail = Returned res \<and>
         ServiceAccounts_GetIamPolicy w res = Inr pol
         \<longrightarrow> fst (ksaHasAccessToGSA w wiPool ns ksaName gsaEmail calls) =
               Returned ((\<exists>b \<in> set (Bindings pol).
                            Role b \<in> {''roles/iam.workloadIdentityUser'',
                                      ''roles/iam.serviceAccountTokenCreator'',
                                      ''roles/editor'',
                                      ''roles/owner''} \<and>
                            ''serviceAccount:'' @ wiPool @ ''['' @ ns @ ''/'' @ ksaName @ '']''
                              \<in> set (Members b)), None))"
proof -
  have principal: "ksaIAMPolicyMember wiPool ns ksaName =
      ''serviceAccount:'' @ wiPool @ ''['' @ ns @ ''/'' @ ksaName @ '']''"
    by (simp add: ksaIAMPolicyMember_def)
  show ?thesis
    using ksaHasAccessToGSA_decision [of w wiPool ns ksaName gsaEmail calls]
    unfolding ksaRoles_def principal .
qed

theorem ksaHasAccessToGSA_granted_iff_witness:
  "(\<exists>b \<in> set (Bindings exampleGSAPolicy).
      Role b \<in> {''roles/iam.workloadIdentityUser'',
                ''roles/iam.serviceAccountTokenCreator'',
                ''roles/editor'',
                ''roles/owner''} \<and>
      ''serviceAccount:'' @ ''my-proj.svc.id.goog'' @ ''['' @ ''default'' @ ''/'' @ ''agent'' @ '']''
        \<in> set (Members b))
   \<and> fst (ksaHasAccessToGSA exampleWorld ''my-proj.svc.id.goog'' ''default'' ''agent'' exampleGSA []) =
       Returned (True, None)
   \<and> \<not> (\<exists>b \<in> set (Bindings exampleGSAPolicy).
      Role b \<in> {''roles/iam.workloadIdentityUser'',
                ''roles/iam.serviceAccountTokenCreator'',
                ''roles/editor'',
                ''roles/owner''} \<and>
      ''serviceAccount:'' @ ''my-proj.svc.id.goog'' @ ''['' @ ''default'' @ ''/'' @ ''Agent'' @ '']''
        \<in> set (Members b))
   \<and> fst (ksaHasAccessToGSA exampleWorld ''my-proj.svc.id.goog'' ''default'' ''Agent'' exampleGSA []) =
       Returned (False, None)
   \<and> (\<exists>b \<in> set (Bindings exampleGSAPolicy).
      Role b = ''roles/viewer'' \<and>
      ''serviceAccount:'' @ ''my-proj.svc.id.goog'' @ ''['' @ ''default'' @ ''/'' @ ''reader'' @ '']''
        \<in> set (Members b))
   \<and> \<not> (\<exists>b \<in> set (Bindings exampleGSAPolicy).
      Role b \<in> {''roles/iam.workloadIdentityUser'',
                ''roles/iam.serviceAccountTokenCreator'',
                ''roles/editor'',
                ''roles/owner''} \<and>
      ''serviceAccount:'' @ ''my-proj.svc.id.goog'' @ ''['' @ ''default'' @ ''/'' @ ''reader'' @ '']''
        \<in> set (Members b))
   \<and> fst (ksaHasAccessToGSA exampleWorld ''my-proj.svc.id.goog'' ''default'' ''reader'' exampleGSA []) =
       Returned (False, None)"
proof -
  let ?res = "''projects/my-proj/serviceAccounts/gsa@my-proj.iam.gserviceaccount.com''"
  have svc: "iam_NewService exampleWorld = Inr ()"
    by code_simp
  have res: "getGSAAPIResource exampleGSA = Returned ?res"
    by code_simp
  have pol: "ServiceAccounts_GetIamPolicy exampleWorld ?res = Inr exampleGSAPolicy"
    by code_simp
  have match: "\<exists>b \<in> set (Bindings exampleGSAPolicy).
      Role b \<in> {''roles/iam.workloadIdentityUser'',
                ''roles/iam.serviceAccountTokenCreator'',
                ''roles/editor'',
                ''roles/owner''} \<and>
      ''serviceAccount:'' @ ''my-proj.svc.id.goog'' @ ''['' @ ''default'' @ ''/'' @ ''agent'' @ '']''
        \<in> set (Members b)"
    by code_simp
  have near_member: "\<not> (\<exists>b \<in> set (Bindings exampleGSAPolicy).
      Role b \<in> {''roles/iam.workloadIdentityUser'',
                ''roles/iam.serviceAccountTokenCreator'',
                ''roles/editor'',
                ''roles/owner''} \<and>
      ''serviceAccount:'' @ ''my-proj.svc.id.goog'' @ ''['' @ ''default'' @ ''/'' @ ''Agent'' @ '']''
        \<in> set (Members b))"
    by code_simp
  have viewer: "\<exists>b \<in> set (Bindings exampleGSAPolicy).
      Role b = ''roles/viewer'' \<and>
      ''serviceAccount:'' @ ''my-proj.svc.id.goog'' @ ''['' @ ''default'' @ ''/'' @ ''reader'' @ '']''
        \<in> set (Members b)"
    by code_simp
  have near_role: "\<not> (\<exists>b \<in> set (Bindings exampleGSAPolicy).
      Role b \<in> {''roles/iam.workloadIdentityUser'',
                ''roles/iam.serviceAccountTokenCreator'',
                ''roles/editor'',
                ''roles/owner''} \<and>
      ''serviceAccount:'' @ ''my-proj.svc.id.goog'' @ ''['' @ ''default'' @ ''/'' @ ''reader'' @ '']''
        \<in> set (Members b))"
    by code_simp
  from ksaHasAccessToGSA_granted_iff
    [of exampleWorld "''my-proj.svc.id.goog''" "''default''" "''agent''" exampleGSA "[]"]
    svc res pol match
  have granted: "fst (ksaHasAccessToGSA exampleWorld ''my-proj.svc.id.goog'' ''default'' ''agent'' exampleGSA []) =
      Returned (True, None)"
    by blast
  from ksaHasAccessToGSA_granted_iff
    [of exampleWorld "''my-proj.svc.id.goog''" "''default''" "''Agent''" exampleGSA "[]"]
    svc res pol near_member
  have denied_member: "fst (ksaHasAccessToGSA exampleWorld ''my-proj.svc.id.goog'' ''default'' ''Agent'' exampleGSA []) =
      Returned (False, None)"
    by simp
  from ksaHasAccessToGSA_granted_iff
    [of exampleWorld "''my-proj.svc.id.goog''" "''default''" "''reader''" exampleGSA "[]"]
    svc res pol near_role
  have denied_role: "fst (ksaHasAccessToGSA exampleWorld ''my-proj.svc.id.goog'' ''default'' ''reader'' exampleGSA []) =
      Returned (False, None)"
    by simp
  from match granted near_member denied_member viewer near_role denied_role show ?thesis
    by blast
qed

text \<open>
  With the IAM service at hand, an email without \<^verbatim>\<open>@\<close> makes the access check panic
  before it asks for any policy.
\<close>

lemma ksaHasAccessToGSA_panics:
  "iam_NewService w = Inr () \<Longrightarrow> CHR ''@'' \<notin> set gsaEmail \<Longrightarrow>
     ksaHasAccessToGSA w wiPool ns ksaName gsaEmail calls =
       (Panicked (IndexOutOfRange 1 1), calls @ [Call_iam_NewService])"
  by (simp add: ksaHasAccessToGSA_run getGSAAPIResource_def Split_absent index_def andThen_def)

subsection \<open>The roles on the project\<close>

lemma gsaMemberLoop_iff: "gsaMemberLoop gsaMember members \<longleftrightarrow> gsaMember \<in> set members"
  by (induction members) auto

lemma gsaBindingLoop_eq:
  "gsaBindingLoop gsaMember bindings roles =
     roles @ map Role (filter (\<lambda>b. gsaMember \<in> set (Members b)) bindings)"
  by (induction bindings arbitrary: roles) (simp_all add: gsaMemberLoop_iff)

lemma getGSAsRolesOnProject_run:
  "getGSAsRolesOnProject w project gsaEmail calls =
     (case cloudresourcemanager_NewService w of
        Inl err \<Rightarrow>
          (Returned ([], Some (Errorf ''creating CloudResourceManager.Service: %w'' [] (Some err))),
           calls @ [Call_cloudresourcemanager_NewService])
      | Inr _ \<Rightarrow>
          (case Projects_GetIamPolicy w project of
             Inl err \<Rightarrow>
               (Returned ([], Some (Errorf ''getting Project %q IAMPolicy: %w'' [project] (Some err))),
                calls @ [Call_cloudresourcemanager_NewService, Call_Projects_GetIamPolicy project])
           | Inr pol \<Rightarrow>
               (Returned (gsaBindingLoop (gsaIAMPolicyMember gsaEmail) (Bindings pol) [], None),
                calls @ [Call_cloudresourcemanager_NewService, Call_Projects_GetIamPolicy project])))"
  by (cases "cloudresourcemanager_NewService w"; cases "Projects_GetIamPolicy w project")
     (simp_all add: getGSAsRolesOnProject_def io_simps ret_def)

text \<open>
  Claim C7. When the project's IAM policy is fetched, \<open>getGSAsRolesOnProject\<close> returns
  the roles of exactly the bindings whose members contain the string
  \<^verbatim>\<open>serviceAccount:<email>\<close>, once each and in the order of the bindings in the policy,
  with a nil error.
\<close>

theorem getGSAsRolesOnProject_roles:
  assumes "cloudresourcemanager_NewService w = Inr ()"
    and "Projects_GetIamPolicy w project = Inr pol"
  shows "fst (getGSAsRolesOnProject w project gsaEmail calls) =
    Returned (map Role (filter (\<lambda>b. ''serviceAccount:'' @ gsaEmail \<in> set (Members b)) (Bindings pol)), None)"
  using assms by (simp add: getGSAsRolesOnProject_run gsaBindingLoop_eq gsaIAMPolicyMember_def)

theorem getGSAsRolesOnProject_roles_witness:
  "cloudresourcemanager_NewService exampleWorld = Inr ()
   \<and> Projects_GetIamPolicy exampleWorld ''my-proj'' = Inr exampleProjectPolicy
   \<and> fst (getGSAsRolesOnProject exampleWorld ''my-proj'' exampleGSA []) =
       Returned ([''roles/storage.admin'', ''roles/pubsub.editor''], None)"
proof -
  have svc: "cloudresourcemanager_NewService exampleWorld = Inr ()"
    by code_simp
  have pol: "Projects_GetIamPolicy exampleWorld ''my-proj'' = Inr exampleProjectPolicy"
    by code_simp
  have "map Role (filter (\<lambda>b. ''serviceAccount:'' @ exampleGSA \<in> set (Members b))
      (Bindings exampleProjectPolicy)) = [''roles/storage.admin'', ''roles/pubsub.editor'']"
    by code_simp
  with getGSAsRolesOnProject_roles [OF svc pol, of exampleGSA "[]"] svc pol show ?thesis
    by simp
qed

subsection \<open>White space\<close>

lemma spaces_nonempty: "p \<in> set spaces \<Longrightarrow> p \<noteq> []"
  by (auto simp: spaces_def)

lemma leadingSpace_0_iff: "leadingSpace s = 0 \<longleftrightarrow> (\<forall>p \<in> set spaces. \<not> HasPrefix s p)"
proof (cases "find (HasPrefix s) spaces")
  case None
  then have "\<forall>p \<in> set spaces. \<not> HasPrefix s p"
    by (simp add: find_None_iff)
  with None show ?thesis
    by (simp add: leadingSpace_def)
next
  case (Some p)
  then have "p \<in> set spaces" and "HasPrefix s p"
    by (auto simp: find_Some_iff)
  with Some show ?thesis
    by (auto simp: leadingSpace_def dest: spaces_nonempty)
qed

lemma leadingSpace_TrimLeftSpace: "leadingSpace (TrimLeftSpace s) = 0"
proof (induction s rule: TrimLeftSpace.induct)
  case (1 s)
  then show ?case
    by (subst TrimLeftSpace.simps) simp
qed

lemma trailingSpace_TrimRightSpace: "trailingSpace (TrimRightSpace s) = 0"
proof (induction s rule: TrimRightSpace.induct)
  case (1 s)
  then show ?case
    by (subst TrimRightSpace.simps) simp
qed

lemma TrimLeftSpace_suffix: "\<exists>l. s = l @ TrimLeftSpace s"
proof (induction s rule: TrimLeftSpace.induct)
  case (1 s)
  show ?case
  proof (cases "leadingSpace s = 0")
    case True
    then show ?thesis
      by (subst TrimLeftSpace.simps) simp
  next
    case False
    with 1 obtain l where "drop (leadingSpace s) s = l @ TrimLeftSpace (drop (leadingSpace s) s)"
      by blast
    then have "s = (take (leadingSpace s) s @ l) @ TrimLeftSpace (drop (leadingSpace s) s)"
      by (metis append.assoc append_take_drop_id)
    with False show ?thesis
      by (subst TrimLeftSpace.simps) (simp del: append_assoc, blast)
  qed
qed

lemma TrimRightSpace_prefix: "\<exists>r. s = TrimRightSpace s @ r"
proof (induction s rule: TrimRightSpace.induct)
  case (1 s)
  show ?case
  proof (cases "trailingSpace s = 0")
    case True
    then show ?thesis
      by (subst TrimRightSpace.simps) simp
  next
    case False
    let ?n = "length s - trailingSpace s"
    from False 1 obtain r where "take ?n s = TrimRightSpace (take ?n s) @ r"
      by blast
    then have "s = TrimRightSpace (take ?n s) @ (r @ drop ?n s)"
      by (metis append.assoc append_take_drop_id)
    with False show ?thesis
      by (subst TrimRightSpace.simps) (simp, blast)
  qed
qed

lemma HasPrefix_append: "HasPrefix s p \<Longrightarrow> HasPrefix (s @ r) p"
  by (auto simp: HasPrefix_def)

text \<open>
  What \<open>TrimSpace\<close> returns is a piece of its argument that neither begins nor ends
  with white space.
\<close>

lemma TrimSpace_trimmed:
  "leadingSpace (TrimSpace s) = 0 \<and> trailingSpace (TrimSpace s) = 0
   \<and> (\<exists>l r. s = l @ TrimSpace s @ r)"
proof -
  obtain l where l: "s = l @ TrimLeftSpace s"
    using TrimLeftSpace_suffix by blast
  obtain r where r: "TrimLeftSpace s = TrimSpace s @ r"
    unfolding TrimSpace_def using TrimRightSpace_prefix by blast
  have "leadingSpace (TrimSpace s) = 0"
  proof (rule ccontr)
    assume "leadingSpace (TrimSpace s) \<noteq> 0"
    then obtain p where "p \<in> set spaces" and "HasPrefix (TrimSpace s) p"
      by (auto simp: leadingSpace_0_iff)
    then have "HasPrefix (TrimSpace s @ r) p"
      by (simp add: HasPrefix_append)
    with \<open>p \<in> set spaces\<close> have "leadingSpace (TrimLeftSpace s) \<noteq> 0"
      unfolding r [symmetric] by (auto simp: leadingSpace_0_iff)
    then show False
      by (simp add: leadingSpace_TrimLeftSpace)
  qed
  moreover have "trailingSpace (TrimSpace s) = 0"
    by (simp add: TrimSpace_def trailingSpace_TrimRightSpace)
  moreover have "s = l @ TrimSpace s @ r"
    using l r by simp
  ultimately show ?thesis
    by blast
qed

subsection \<open>The target project\<close>

text \<open>
  Claim C8. \<open>determineProject\<close> returns a non-empty \<^verbatim>\<open>-project\<close> value as it is, with a
  nil error and without any call to the outside. Only for the empty value does it run
  \<^verbatim>\<open>gcloud config get-value core/project\<close>, once, and return what the command printed,
  white space at both ends trimmed, or the error of the command.
\<close>

theorem determineProject_flag:
  "(projectFlagValue \<noteq> '''' \<longrightarrow>
      determineProject w projectFlagValue calls = (Returned (projectFlagValue, None), calls))
   \<and> (projectFlagValue = '''' \<longrightarrow>
      determineProject w projectFlagValue calls =
        (Returned
           (case exec_Output w ''gcloud'' [''config'', ''get-value'', ''core/project''] of
              Inl err \<Rightarrow> ('''', Some err)
            | Inr out \<Rightarrow> (TrimSpace out, None)),
         calls @ [Call_exec_Output ''gcloud'' [''config'', ''get-value'', ''core/project'']]))"
  by (cases "exec_Output w ''gcloud'' [''config'', ''get-value'', ''core/project'']")
     (simp_all add: determineProject_def io_simps ret_def)

theorem determineProject_flag_witness:
  "''other-project'' \<noteq> ''''
   \<and> determineProject exampleWorld ''other-project'' [] = (Returned (''other-project'', None), [])
   \<and> determineProject exampleWorld '''' [] =
       (Returned (''my-proj'', None),
        [Call_exec_Output ''gcloud'' [''config'', ''get-value'', ''core/project'']])"
proof -
  have given: "''other-project'' \<noteq> ''''"
    by simp
  have out: "(case exec_Output exampleWorld ''gcloud'' [''config'', ''get-value'', ''core/project''] of
      Inl err \<Rightarrow> ('''', Some err)
    | Inr out \<Rightarrow> (TrimSpace out, None)) = (''my-proj'', None)"
    by code_simp
  from determineProject_flag [of "''other-project''" exampleWorld "[]"] given
  have explicit: "determineProject exampleWorld ''other-project'' [] = (Returned (''other-project'', None), [])"
    by blast
  from determineProject_flag [of "''''" exampleWorld "[]"] out
  have ambient: "determineProject exampleWorld '''' [] =
      (Returned (''my-proj'', None),
       [Call_exec_Output ''gcloud'' [''config'', ''get-value'', ''core/project'']])"
    by simp
  from given explicit ambient show ?thesis
    by blast
qed

subsection \<open>The cluster named by the kubeconfig\<close>

lemma getClusterFromKubeconfig_decoded:
  assumes "user_Current w = Inr homeDir"
    and "os_Open w (filepath_Join w [homeDir, ''.kube'', ''config'']) = Inr f"
    and "yaml_Decode w f = Inr currentContext"
  shows "fst (getClusterFromKubeconfig w calls) =
    andThen (index (Split currentContext CHR ''_'') 1) (\<lambda>sp1.
    andThen (index (Split currentContext CHR ''_'') 2) (\<lambda>sp2.
    andThen (index (Split currentContext CHR ''_'') 3) (\<lambda>sp3.
    Returned (sp1, sp2, sp3, None))))"
  using assms
  by (simp add: getClusterFromKubeconfig_def io_simps ret_def index_def andThen_def Let_def)

text \<open>
  A context of four pieces, such as \<^verbatim>\<open>gke_my-proj_us-central1_cluster-1\<close>, names the
  project, the location and the cluster by its second, third and fourth piece.
\<close>

lemma getClusterFromKubeconfig_context:
  assumes "user_Current w = Inr homeDir"
    and "os_Open w (filepath_Join w [homeDir, ''.kube'', ''config'']) = Inr f"
    and "yaml_Decode w f = Inr (a @ ''_'' @ p @ ''_'' @ l @ ''_'' @ n)"
    and "CHR ''_'' \<notin> set a" and "CHR ''_'' \<notin> set p" and "CHR ''_'' \<notin> set l" and "CHR ''_'' \<notin> set n"
  shows "fst (getClusterFromKubeconfig w calls) = Returned (p, l, n, None)"
proof -
  have "Split (a @ ''_'' @ p @ ''_'' @ l @ ''_'' @ n) CHR ''_'' = [a, p, l, n]"
    using assms(4-7) by (simp add: Split_first Split_absent)
  then show ?thesis
    by (simp add: getClusterFromKubeconfig_decoded [OF assms(1-3)] index_def andThen_def)
qed

text \<open>
  Claim C10. \<open>getClusterFromKubeconfig\<close> is partial: when the kubeconfig is read and its
  \<^verbatim>\<open>current-context\<close> holds fewer than three \<^verbatim>\<open>_\<close>, the split has fewer than four
  pieces and the first of the index expressions \<^verbatim>\<open>sp[1]\<close>, \<^verbatim>\<open>sp[2]\<close>, \<^verbatim>\<open>sp[3]\<close> that is
  out of range panics; no error is returned.
\<close>

theorem getClusterFromKubeconfig_panics:
  assumes "user_Current w = Inr homeDir"
    and "os_Open w (filepath_Join w [homeDir, ''.kube'', ''config'']) = Inr f"
    and "yaml_Decode w f = Inr currentContext"
    and "count_list currentContext CHR ''_'' < 3"
  shows "fst (getClusterFromKubeconfig w calls) =
    Panicked (IndexOutOfRange (Suc (count_list currentContext CHR ''_''))
                              (Suc (count_list currentContext CHR ''_'')))"
proof -
  let ?n = "count_list currentContext CHR ''_''"
  have "?n = 0 \<or> ?n = 1 \<or> ?n = 2"
    using assms(4) by arith
  then show ?thesis
    by (auto simp: getClusterFromKubeconfig_decoded [OF assms(1-3)] index_def andThen_def length_Split)
qed

theorem getClusterFromKubeconfig_panics_witness:
  "user_Current (exampleWorld\<lparr>yaml_Decode := (\<lambda>f. Inr ''kind_kind-1'')\<rparr>) = Inr ''/home/dev''
   \<and> count_list ''kind_kind-1'' CHR ''_'' < 3
   \<and> fst (getClusterFromKubeconfig (exampleWorld\<lparr>yaml_Decode := (\<lambda>f. Inr ''kind_kind-1'')\<rparr>) []) =
       Panicked (IndexOutOfRange 2 2)"
proof -
  let ?w = "exampleWorld\<lparr>yaml_Decode := (\<lambda>f. Inr ''kind_kind-1'')\<rparr>"
  have usr: "user_Current ?w = Inr ''/home/dev''"
    by code_simp
  have opened: "os_Open ?w (filepath_Join ?w [''/home/dev'', ''.kube'', ''config'']) = Inr 0"
    by code_simp
  have decoded: "yaml_Decode ?w 0 = Inr ''kind_kind-1''"
    by code_simp
  have n: "count_list ''kind_kind-1'' CHR ''_'' = 1"
    by code_simp
  then have few: "count_list ''kind_kind-1'' CHR ''_'' < 3"
    by simp
  from getClusterFromKubeconfig_panics [OF usr opened decoded few, of "[]"] n usr few show ?thesis
    by simp
qed

subsection \<open>What a run can and cannot do\<close>

lemma passes_ret: "passes v (ret x)"
  by (simp add: ret_def)

lemma passes_extern: "passes v (extern c reply)"
  by (simp add: extern_def)

lemma passes_lift: "r \<noteq> Exited v \<Longrightarrow> passes v (lift r)"
  by (simp add: lift_def)

lemma passes_fatal: "e \<noteq> v \<Longrightarrow> passes v (fatal e)"
  by (simp add: fatal_def)

lemma passes_bnd:
  assumes m: "passes v m" and f: "\<And>x. passes v (f x)"
  shows "passes v (bnd m f)"
proof (intro allI)
  fix calls
  obtain r calls' where run: "m calls = (r, calls')"
    by (cases "m calls")
  from m run obtain ext where r: "r \<noteq> Exited v" and calls': "calls' = calls @ ext"
    by (metis fst_conv snd_conv)
  show "fst (bnd m f calls) \<noteq> Exited v \<and> (\<exists>ext. snd (bnd m f calls) = calls @ ext)"
  proof (cases r)
    case (Returned x)
    from f [of x] obtain ext' where "fst (f x calls') \<noteq> Exited v" and "snd (f x calls') = calls' @ ext'"
      by blast
    with run Returned calls' show ?thesis
      by (simp add: bnd_def)
  next
    case (Panicked p)
    with run calls' show ?thesis
      by (simp add: bnd_def)
  next
    case (Exited e)
    with run calls' r show ?thesis
      by (simp add: bnd_def)
  qed
qed

lemma passes_case_sum:
  "(\<And>a. passes v (f a)) \<Longrightarrow> (\<And>b. passes v (g b)) \<Longrightarrow> passes v (case_sum f g r)"
  by (cases r) simp_all

lemma passes_case_option:
  "passes v n \<Longrightarrow> (\<And>a. passes v (f a)) \<Longrightarrow> passes v (case_option n f r)"
  by (cases r) simp_all

lemma passes_case_prod:
  "(\<And>a b. passes v (f a b)) \<Longrightarrow> passes v (case_prod f r)"
  by (cases r) simp_all

lemma passes_if:
  "(c \<Longrightarrow> passes v m) \<Longrightarrow> (\<not> c \<Longrightarrow> passes v n) \<Longrightarrow> passes v (if c then m else n)"
  by simp

lemma passes_Let: "passes v (f x) \<Longrightarrow> passes v (Let x f)"
  by simp

lemma index_not_Exited: "index xs i \<noteq> Exited v"
  by (simp add: index_def)

lemma getGSAAPIResource_not_Exited: "getGSAAPIResource gsaEmail \<noteq> Exited v"
  by (simp add: getGSAAPIResource_def andThen_def index_def split: result.splits)

lemmas passes_intros =
  passes_bnd passes_ret passes_extern passes_fatal passes_lift
  passes_case_sum passes_case_option passes_case_prod passes_if passes_Let
  index_not_Exited getGSAAPIResource_not_Exited

text \<open>The lookups never end the process: only \<open>main\<close> calls \<^verbatim>\<open>log.Fatal\<close>.\<close>

lemma passes_getPodKSA: "passes v (getPodKSA w client ns podName)"
  unfolding getPodKSA_def by (intro passes_intros)

lemma passes_getKSAsWIAnotation: "passes v (getKSAsWIAnotation w client ns ksaName)"
  unfolding getKSAsWIAnotation_def by (intro passes_intros)

lemma passes_ksaHasAccessToGSA: "passes v (ksaHasAccessToGSA w wiPool ns ksaName gsaEmail)"
  unfolding ksaHasAccessToGSA_def by (intro passes_intros)

lemma passes_getWIPool: "passes v (getWIPool w clusterAPIName)"
  unfolding getWIPool_def by (intro passes_intros) simp

lemma passes_getGSAsRolesOnProject: "passes v (getGSAsRolesOnProject w project gsaEmail)"
  unfolding getGSAsRolesOnProject_def by (intro passes_intros)

lemma passes_determineProject: "passes v (determineProject w projectFlagValue)"
  unfolding determineProject_def by (intro passes_intros)

lemma passes_getClusterFromKubeconfig: "passes v (getClusterFromKubeconfig w)"
  unfolding getClusterFromKubeconfig_def by (intro passes_intros)

lemma passes_NewForConfigOrDie: "passes v (NewForConfigOrDie w cfg)"
  unfolding NewForConfigOrDie_def by (intro passes_intros) simp_all

lemma passes_GetRESTConfig: "passes v (GetRESTConfig w serverURL kubeconfig)"
  unfolding GetRESTConfig_def by (intro passes_intros)

lemma passes_main_roles:
  "passes (LogFatal [AString ''Exactly one of --ksa and --pod must be specified.''])
     (main_roles w fl prefix ksa gsa)"
  unfolding main_roles_def
  by (intro passes_intros passes_determineProject passes_getGSAsRolesOnProject) simp_all

lemma passes_main_access:
  "passes (LogFatal [AString ''Exactly one of --ksa and --pod must be specified.''])
     (main_access w fl prefix ksa gsa wiPool)"
  unfolding main_access_def
  by (intro passes_intros passes_ksaHasAccessToGSA passes_main_roles) simp_all

lemma passes_main_cluster:
  "passes (LogFatal [AString ''Exactly one of --ksa and --pod must be specified.''])
     (main_cluster w fl prefix ksa gsa)"
  unfolding main_cluster_def
  by (intro passes_intros passes_getClusterFromKubeconfig passes_getWIPool passes_main_access)
     simp_all

text \<open>Whatever it finds, \<open>GetRESTConfig\<close> asks the outside at least once.\<close>

lemma GetRESTConfig_calls:
  "\<exists>c ext. snd (GetRESTConfig w serverURL kubeconfig calls) = calls @ c # ext"
proof (cases "kubeconfig \<noteq> ''''")
  case True
  then show ?thesis
    by (cases "BuildConfigFromFlags w serverURL kubeconfig")
       (simp_all add: GetRESTConfig_def io_simps ret_def)
next
  case False
  let ?rest = "\<lambda>c. case c of
      Inr c \<Rightarrow> ret (Some c, None)
    | Inl _ \<Rightarrow>
        bnd (extern Call_user_Current (user_Current w)) (\<lambda>usr.
        case usr of
          Inr homeDir \<Rightarrow>
            (let path = filepath_Join w [homeDir, ''.kube'', ''config''] in
             bnd (extern (Call_BuildConfigFromFlags '''' path) (BuildConfigFromFlags w '''' path)) (\<lambda>c.
             case c of
               Inr c \<Rightarrow> ret (Some c, None)
             | Inl _ \<Rightarrow> ret (None, Some (New ''could not create a valid kubeconfig''))))
        | Inl _ \<Rightarrow> ret (None, Some (New ''could not create a valid kubeconfig'')))"
  have "passes (LogFatal []) (?rest (InClusterConfig w))"
    by (intro passes_intros)
  then obtain ext where
    "snd (?rest (InClusterConfig w) (calls @ [Call_InClusterConfig])) = (calls @ [Call_InClusterConfig]) @ ext"
    by blast
  with False show ?thesis
    by (simp add: GetRESTConfig_def io_simps)
qed

subsection \<open>Input validation\<close>

text \<open>
  Claim C4. When \<^verbatim>\<open>-ksa\<close> and \<^verbatim>\<open>-pod\<close> are both empty or both non-empty, \<open>main\<close> ends
  with the fatal message of the validation and has made no call to the outside at all
  (so no network call). When exactly one of them is non-empty, \<open>main\<close> does not end with
  that message and goes on: it makes at least the first call of \<open>GetRESTConfig\<close>.
\<close>

theorem main_validation:
  "((ksaFlag fl \<noteq> '''') = (podFlag fl \<noteq> '''') \<longrightarrow>
      main w fl calls =
        (Exited (LogFatal [AString ''Exactly one of --ksa and --pod must be specified.'']), calls))
   \<and> ((ksaFlag fl \<noteq> '''') \<noteq> (podFlag fl \<noteq> '''') \<longrightarrow>
      fst (main w fl calls) \<noteq> Exited (LogFatal [AString ''Exactly one of --ksa and --pod must be specified.''])
      \<and> (\<exists>c ext. snd (main w fl calls) = calls @ c # ext))"
proof -
  let ?v = "LogFatal [AString ''Exactly one of --ksa and --pod must be specified.'']"
  have rejected: "main w fl calls = (Exited ?v, calls)"
    if "(ksaFlag fl \<noteq> '''') = (podFlag fl \<noteq> '''')"
    using that by (simp add: main_def fatal_def Let_def)
  have accepted: "fst (main w fl calls) \<noteq> Exited ?v \<and> (\<exists>c ext. snd (main w fl calls) = calls @ c # ext)"
    if one: "(ksaFlag fl \<noteq> '''') \<noteq> (podFlag fl \<noteq> '''')"
  proof -
    let ?rest = "\<lambda>(cfg, err).
        case err of
          Some err \<Rightarrow> fatal (LogFatal [AString ''Error building kubeconfig: '', AError err])
        | None \<Rightarrow>
            bnd (NewForConfigOrDie w cfg) (\<lambda>client.
            bnd (if podFlag fl \<noteq> '''' then
                   bnd (getPodKSA w client (nsFlag fl) (podFlag fl)) (\<lambda>(ksa, err).
                   case err of
                     Some err \<Rightarrow> fatal (LogFatalf ''Error getting the Pod's KSA: %v'' [AError err])
                   | None \<Rightarrow> ret (ASprintf ''Pod %q uses '' [AString (podFlag fl)], ksa))
                 else ret (AString '''', ksaFlag fl)) (\<lambda>(prefix, ksa).
            bnd (getKSAsWIAnotation w client (nsFlag fl) ksa) (\<lambda>(gsa, err).
            case err of
              Some err \<Rightarrow> fatal (LogFatalf ''Error getting the KSA's WI annotation: %v'' [AError err])
            | None \<Rightarrow> main_cluster w fl prefix ksa gsa)))"
    from one have unfold: "main w fl = bnd (GetRESTConfig w (serverFlag fl) (kubeconfigFlag fl)) ?rest"
      by (simp add: main_def Let_def)
    have rest: "passes ?v (?rest x)" for x
      by (intro passes_intros passes_NewForConfigOrDie passes_getPodKSA passes_getKSAsWIAnotation
          passes_main_cluster) simp_all
    have "passes ?v (main w fl)"
      unfolding unfold using passes_GetRESTConfig rest by (rule passes_bnd)
    then have no_exit: "fst (main w fl calls) \<noteq> Exited ?v"
      by blast
    obtain c ext where "snd (GetRESTConfig w (serverFlag fl) (kubeconfigFlag fl) calls) = calls @ c # ext"
      using GetRESTConfig_calls by blast
    then obtain r where run: "GetRESTConfig w (serverFlag fl) (kubeconfigFlag fl) calls = (r, calls @ c # ext)"
      by (cases "GetRESTConfig w (serverFlag fl) (kubeconfigFlag fl) calls") simp
    have "\<exists>ext'. snd (main w fl calls) = calls @ c # ext'"
    proof (cases r)
      case (Returned x)
      have eq: "main w fl calls = ?rest x (calls @ c # ext)"
        unfolding unfold using run Returned by (intro bnd_Returned) simp
      from rest [of x] obtain ext' where ext': "snd (?rest x (calls @ c # ext)) = (calls @ c # ext) @ ext'"
        by blast
      have "snd (main w fl calls) = calls @ c # (ext @ ext')"
        unfolding eq ext' by simp
      then show ?thesis
        by blast
    next
      case (Panicked p)
      with run have "main w fl calls = (Panicked p, calls @ c # ext)"
        unfolding unfold by (intro bnd_Panicked) simp
      then show ?thesis
        by simp
    next
      case (Exited e)
      with run have "main w fl calls = (Exited e, calls @ c # ext)"
        unfolding unfold by (intro bnd_Exited) simp
      then show ?thesis
        by simp
    qed
    with no_exit show ?thesis
      by blast
  qed
  from rejected accepted show ?thesis
    by blast
qed

theorem main_validation_witness:
  "(ksaFlag exampleFlags \<noteq> '''') \<noteq> (podFlag exampleFlags \<noteq> '''')
   \<and> fst (main exampleWorld exampleFlags []) \<noteq>
       Exited (LogFatal [AString ''Exactly one of --ksa and --pod must be specified.''])
   \<and> (\<exists>c ext. snd (main exampleWorld exampleFlags []) = c # ext)
   \<and> main exampleWorld (exampleFlags\<lparr>ksaFlag := ''''\<rparr>) [] =
       (Exited (LogFatal [AString ''Exactly one of --ksa and --pod must be specified.'']), [])
   \<and> main exampleWorld (exampleFlags\<lparr>podFlag := ''agent-8948bd7b-vz5wp''\<rparr>) [] =
       (Exited (LogFatal [AString ''Exactly one of --ksa and --pod must be specified.'']), [])"
proof -
  have one: "(ksaFlag exampleFlags \<noteq> '''') \<noteq> (podFlag exampleFlags \<noteq> '''')"
    by code_simp
  have none: "(ksaFlag (exampleFlags\<lparr>ksaFlag := ''''\<rparr>) \<noteq> '''') =
      (podFlag (exampleFlags\<lparr>ksaFlag := ''''\<rparr>) \<noteq> '''')"
    by code_simp
  have both: "(ksaFlag (exampleFlags\<lparr>podFlag := ''agent-8948bd7b-vz5wp''\<rparr>) \<noteq> '''') =
      (podFlag (exampleFlags\<lparr>podFlag := ''agent-8948bd7b-vz5wp''\<rparr>) \<noteq> '''')"
    by code_simp
  from main_validation [where fl = exampleFlags and w = exampleWorld and calls = "[]"] one
  have accepted: "fst (main exampleWorld exampleFlags []) \<noteq>
      Exited (LogFatal [AString ''Exactly one of --ksa and --pod must be specified.''])
    \<and> (\<exists>c ext. snd (main exampleWorld exampleFlags []) = c # ext)"
    by simp
  from main_validation
    [where fl = "exampleFlags\<lparr>ksaFlag := ''''\<rparr>" and w = exampleWorld and calls = "[]"] none
  have rejected_none: "main exampleWorld (exampleFlags\<lparr>ksaFlag := ''''\<rparr>) [] =
      (Exited (LogFatal [AString ''Exactly one of --ksa and --pod must be specified.'']), [])"
    by blast
  from main_validation
    [where fl = "exampleFlags\<lparr>podFlag := ''agent-8948bd7b-vz5wp''\<rparr>" and w = exampleWorld and calls = "[]"] both
  have rejected_both: "main exampleWorld (exampleFlags\<lparr>podFlag := ''agent-8948bd7b-vz5wp''\<rparr>) [] =
      (Exited (LogFatal [AString ''Exactly one of --ksa and --pod must be specified.'']), [])"
    by blast
  from one accepted rejected_none rejected_both show ?thesis
    by blast
qed

subsection \<open>Access denied is a diagnosis, not an error\<close>

lemma main_roles_never_denies:
  "passes (LogFatalf ''%sKSA %q, which links to GSA %q, but that GSA does not grant access to the KSA'' args)
     (main_roles w fl prefix ksa gsa)"
  unfolding main_roles_def
  by (intro passes_intros passes_determineProject passes_getGSAsRolesOnProject) simp_all

lemma main_access_run:
  "fst (main_access w fl prefix ksa gsa wiPool calls) =
     (case ksaHasAccessToGSA w wiPool (nsFlag fl) ksa gsa calls of
        (Returned (hasAccess, Some err), calls') \<Rightarrow>
          Exited (LogFatalf ''Error checking the KSAs access on the GSA: %v'' [AError err])
      | (Returned (hasAccess, None), calls') \<Rightarrow>
          if \<not> hasAccess then
            Exited (LogFatalf
              ''%sKSA %q, which links to GSA %q, but that GSA does not grant access to the KSA''
              [prefix, AString ksa, AString gsa])
          else fst (main_roles w fl prefix ksa gsa calls')
      | (Panicked p, calls') \<Rightarrow> Panicked p
      | (Exited e, calls') \<Rightarrow> Exited e)"
  by (simp add: main_access_def bnd_def fatal_def split: prod.split result.split option.split)

text \<open>An exit that the first part of a sequence passes comes from the second part.\<close>

lemma bnd_ExitedE:
  assumes "fst (bnd m f calls) = Exited v" and "passes v m"
  obtains x calls' where "m calls = (Returned x, calls')" and "fst (f x calls') = Exited v"
proof -
  obtain r calls' where run: "m calls = (r, calls')"
    by (cases "m calls")
  with assms(2) have "r \<noteq> Exited v"
    by (metis fst_conv)
  with assms(1) run that show thesis
    by (cases r) (auto simp: bnd_def)
qed

text \<open>
  Followed back through \<open>main\<close>: a run that ends with the diagnostic for a KSA and a
  GSA went through an access check that answered \<^verbatim>\<open>(false, nil)\<close> for them.
\<close>

lemma main_access_denied:
  assumes "fst (main_access w fl prefix ksa gsa wiPool calls) =
    Exited (LogFatalf ''%sKSA %q, which links to GSA %q, but that GSA does not grant access to the KSA'' [p, AString k, AString g])"
  shows "ksa = k \<and> gsa = g \<and> fst (ksaHasAccessToGSA w wiPool (nsFlag fl) k g calls) = Returned (False, None)"
proof -
  let ?v = "LogFatalf ''%sKSA %q, which links to GSA %q, but that GSA does not grant access to the KSA'' [p, AString k, AString g]"
  from assms obtain x calls' where run: "ksaHasAccessToGSA w wiPool (nsFlag fl) ksa gsa calls = (Returned x, calls')"
    and rest: "fst ((case x of (hasAccess, err) \<Rightarrow>
     case err of
       Some err \<Rightarrow> fatal (LogFatalf ''Error checking the KSAs access on the GSA: %v'' [AError err])
     | None \<Rightarrow>
         if \<not> hasAccess then
           fatal (LogFatalf
             ''%sKSA %q, which links to GSA %q, but that GSA does not grant access to the KSA''
             [prefix, AString ksa, AString gsa])
         else main_roles w fl prefix ksa gsa) calls') = Exited ?v"
    unfolding main_access_def by (rule bnd_ExitedE [OF _ passes_ksaHasAccessToGSA])
  have "fst (main_roles w fl prefix ksa gsa calls') \<noteq> Exited ?v"
    using main_roles_never_denies by blast
  with rest run show ?thesis
    by (cases x) (auto simp: fatal_def split: option.splits if_splits)
qed

lemma main_cluster_denied:
  assumes "fst (main_cluster w fl prefix ksa gsa calls) =
    Exited (LogFatalf ''%sKSA %q, which links to GSA %q, but that GSA does not grant access to the KSA'' [p, AString k, AString g])"
  shows "ksa = k \<and> gsa = g \<and> (\<exists>wiPool calls'. fst (ksaHasAccessToGSA w wiPool (nsFlag fl) k g calls') = Returned (False, None))"
proof -
  let ?v = "LogFatalf ''%sKSA %q, which links to GSA %q, but that GSA does not grant access to the KSA'' [p, AString k, AString g]"
  from assms obtain x calls1 where "getClusterFromKubeconfig w calls = (Returned x, calls1)" and
    rest: "fst ((case x of (p, l, n, err) \<Rightarrow>
     let (clusterProject, clusterLocation, clusterName) =
           (if err = None then (p, l, n)
            else (clusterProjectFlag fl, clusterLocationFlag fl, clusterNameFlag fl)) in
     bnd (getWIPool w (getClusterAPIName clusterProject clusterLocation clusterName)) (\<lambda>(wiPool, err).
     case err of
       Some err \<Rightarrow> fatal (LogFatalf ''Error getting WI Pool: %v'' [AError err])
     | None \<Rightarrow> main_access w fl prefix ksa gsa wiPool)) calls1) = Exited ?v"
    unfolding main_cluster_def by (rule bnd_ExitedE [OF _ passes_getClusterFromKubeconfig])
  from rest obtain name where "fst (bnd (getWIPool w name) (\<lambda>(wiPool, err).
     case err of
       Some err \<Rightarrow> fatal (LogFatalf ''Error getting WI Pool: %v'' [AError err])
     | None \<Rightarrow> main_access w fl prefix ksa gsa wiPool) calls1) = Exited ?v"
    by (cases x) (auto split: if_splits)
  then obtain y calls2 where "getWIPool w name calls1 = (Returned y, calls2)" and "fst ((case y of (wiPool, err) \<Rightarrow>
     case err of
       Some err \<Rightarrow> fatal (LogFatalf ''Error getting WI Pool: %v'' [AError err])
     | None \<Rightarrow> main_access w fl prefix ksa gsa wiPool) calls2) = Exited ?v"
    by (rule bnd_ExitedE [OF _ passes_getWIPool])
  then obtain wiPool where "fst (main_access w fl prefix ksa gsa wiPool calls2) = Exited ?v"
    by (cases y) (auto simp: fatal_def split: option.splits)
  from main_access_denied [OF this] show ?thesis
    by blast
qed

lemma main_denied:
  assumes "fst (main w fl calls) =
    Exited (LogFatalf ''%sKSA %q, which links to GSA %q, but that GSA does not grant access to the KSA'' [p, AString k, AString g])"
  shows "\<exists>wiPool calls'. fst (ksaHasAccessToGSA w wiPool (nsFlag fl) k g calls') = Returned (False, None)"
proof -
  let ?v = "LogFatalf ''%sKSA %q, which links to GSA %q, but that GSA does not grant access to the KSA'' [p, AString k, AString g]"
  let ?tail = "\<lambda>client. bnd (if podFlag fl \<noteq> '''' then
                   bnd (getPodKSA w client (nsFlag fl) (podFlag fl)) (\<lambda>(ksa, err).
                   case err of
                     Some err \<Rightarrow> fatal (LogFatalf ''Error getting the Pod's KSA: %v'' [AError err])
                   | None \<Rightarrow> ret (ASprintf ''Pod %q uses '' [AString (podFlag fl)], ksa))
                 else ret (AString '''', ksaFlag fl)) (\<lambda>(prefix, ksa).
            bnd (getKSAsWIAnotation w client (nsFlag fl) ksa) (\<lambda>(gsa, err).
            case err of
              Some err \<Rightarrow> fatal (LogFatalf ''Error getting the KSA's WI annotation: %v'' [AError err])
            | None \<Rightarrow> main_cluster w fl prefix ksa gsa))"
  have one: "(ksaFlag fl \<noteq> '''') \<noteq> (podFlag fl \<noteq> '''')"
    using assms by (auto simp: main_def fatal_def Let_def split: if_splits)
  then have "main w fl = bnd (GetRESTConfig w (serverFlag fl) (kubeconfigFlag fl)) (\<lambda>(cfg, err).
        case err of
          Some err \<Rightarrow> fatal (LogFatal [AString ''Error building kubeconfig: '', AError err])
        | None \<Rightarrow> bnd (NewForConfigOrDie w cfg) ?tail)"
    by (simp add: main_def Let_def)
  with assms obtain x calls1 where "fst ((case x of (cfg, err) \<Rightarrow>
        case err of
          Some err \<Rightarrow> fatal (LogFatal [AString ''Error building kubeconfig: '', AError err])
        | None \<Rightarrow> bnd (NewForConfigOrDie w cfg) ?tail) calls1) = Exited ?v"
    by (metis (no_types, lifting) bnd_ExitedE passes_GetRESTConfig)
  then obtain cfg where "fst (bnd (NewForConfigOrDie w cfg) ?tail calls1) = Exited ?v"
    by (cases x) (auto simp: fatal_def split: option.splits)
  then obtain client calls2 where "NewForConfigOrDie w cfg calls1 = (Returned client, calls2)"
    and "fst (?tail client calls2) = Exited ?v"
    by (rule bnd_ExitedE [OF _ passes_NewForConfigOrDie])
  then have "fst (?tail client calls2) = Exited ?v"
    by simp
  moreover have "passes ?v (if podFlag fl \<noteq> '''' then
                   bnd (getPodKSA w client (nsFlag fl) (podFlag fl)) (\<lambda>(ksa, err).
                   case err of
                     Some err \<Rightarrow> fatal (LogFatalf ''Error getting the Pod's KSA: %v'' [AError err])
                   | None \<Rightarrow> ret (ASprintf ''Pod %q uses '' [AString (podFlag fl)], ksa))
                 else ret (AString '''', ksaFlag fl))"
    by (intro passes_intros passes_getPodKSA) simp_all
  ultimately obtain y calls3 where "(if podFlag fl \<noteq> '''' then
                   bnd (getPodKSA w client (nsFlag fl) (podFlag fl)) (\<lambda>(ksa, err).
                   case err of
                     Some err \<Rightarrow> fatal (LogFatalf ''Error getting the Pod's KSA: %v'' [AError err])
                   | None \<Rightarrow> ret (ASprintf ''Pod %q uses '' [AString (podFlag fl)], ksa))
                 else ret (AString '''', ksaFlag fl)) calls2 = (Returned y, calls3)"
    and "fst ((case y of (prefix, ksa) \<Rightarrow>
            bnd (getKSAsWIAnotation w client (nsFlag fl) ksa) (\<lambda>(gsa, err).
            case err of
              Some err \<Rightarrow> fatal (LogFatalf ''Error getting the KSA's WI annotation: %v'' [AError err])
            | None \<Rightarrow> main_cluster w fl prefix ksa gsa)) calls3) = Exited ?v"
    by (rule bnd_ExitedE)
  then obtain prefix ksa where "fst (bnd (getKSAsWIAnotation w client (nsFlag fl) ksa) (\<lambda>(gsa, err).
            case err of
              Some err \<Rightarrow> fatal (LogFatalf ''Error getting the KSA's WI annotation: %v'' [AError err])
            | None \<Rightarrow> main_cluster w fl prefix ksa gsa) calls3) = Exited ?v"
    by (cases y) auto
  then obtain z calls4 where "getKSAsWIAnotation w client (nsFlag fl) ksa calls3 = (Returned z, calls4)"
    and "fst ((case z of (gsa, err) \<Rightarrow>
            case err of
              Some err \<Rightarrow> fatal (LogFatalf ''Error getting the KSA's WI annotation: %v'' [AError err])
            | None \<Rightarrow> main_cluster w fl prefix ksa gsa) calls4) = Exited ?v"
    by (rule bnd_ExitedE [OF _ passes_getKSAsWIAnotation])
  then obtain gsa where "fst (main_cluster w fl prefix ksa gsa calls4) = Exited ?v"
    by (cases z) (auto simp: fatal_def split: option.splits)
  from main_cluster_denied [OF this] show ?thesis
    by blast
qed

text \<open>
  Claim C6. When the policy of the GSA is fetched and no binding with an allow-listed
  role holds the synthesized KSA principal, \<open>ksaHasAccessToGSA\<close> returns
  \<^verbatim>\<open>(false, nil)\<close>, not an error. Its caller, \<open>main\<close> from the access check on, ends with
  the formatted diagnostic (prefix, KSA, GSA, "does not grant access") exactly when the
  check returned \<^verbatim>\<open>(false, nil)\<close>; a non-nil error of the check ends the run with the
  different message "Error checking the KSAs access on the GSA". And a run of the whole
  of \<open>main\<close> ends with the diagnostic for a KSA and a GSA only if the access check
  answered \<^verbatim>\<open>(false, nil)\<close> for them.
\<close>

theorem denied_access_is_diagnostic:
  "(\<forall>res pol.
      iam_NewService w = Inr () \<and> getGSAAPIResource gsa = Returned res \<and>
      ServiceAccounts_GetIamPolicy w res = Inr pol \<and>
      (\<forall>b \<in> set (Bindings pol).
         ksaIAMPolicyMember wiPool (nsFlag fl) ksa \<in> set (Members b) \<longrightarrow> Role b \<notin> ksaRoles)
      \<longrightarrow> fst (ksaHasAccessToGSA w wiPool (nsFlag fl) ksa gsa calls) = Returned (False, None))
   \<and> (fst (main_access w fl prefix ksa gsa wiPool calls) =
         Exited (LogFatalf
           ''%sKSA %q, which links to GSA %q, but that GSA does not grant access to the KSA''
           [prefix, AString ksa, AString gsa])
       \<longleftrightarrow> fst (ksaHasAccessToGSA w wiPool (nsFlag fl) ksa gsa calls) = Returned (False, None))
   \<and> (\<forall>hasAccess err.
         fst (ksaHasAccessToGSA w wiPool (nsFlag fl) ksa gsa calls) = Returned (hasAccess, Some err)
         \<longrightarrow> fst (main_access w fl prefix ksa gsa wiPool calls) =
               Exited (LogFatalf ''Error checking the KSAs access on the GSA: %v'' [AError err]))
   \<and> (fst (main w fl calls) =
         Exited (LogFatalf
           ''%sKSA %q, which links to GSA %q, but that GSA does not grant access to the KSA''
           [prefix, AString ksa, AString gsa])
       \<longrightarrow> (\<exists>pool calls'.
             fst (ksaHasAccessToGSA w pool (nsFlag fl) ksa gsa calls') = Returned (False, None)))"
proof -
  let ?denied = "LogFatalf
    ''%sKSA %q, which links to GSA %q, but that GSA does not grant access to the KSA''
    [prefix, AString ksa, AString gsa]"
  have negative: "fst (ksaHasAccessToGSA w wiPool (nsFlag fl) ksa gsa calls) = Returned (False, None)"
    if "iam_NewService w = Inr ()" and "getGSAAPIResource gsa = Returned res"
      and "ServiceAccounts_GetIamPolicy w res = Inr pol"
      and "\<forall>b \<in> set (Bindings pol).
        ksaIAMPolicyMember wiPool (nsFlag fl) ksa \<in> set (Members b) \<longrightarrow> Role b \<notin> ksaRoles"
    for res pol
    using that by (auto simp: ksaHasAccessToGSA_run ksaBindingLoop_iff)
  obtain r calls' where run: "ksaHasAccessToGSA w wiPool (nsFlag fl) ksa gsa calls = (r, calls')"
    by (cases "ksaHasAccessToGSA w wiPool (nsFlag fl) ksa gsa calls")
  have check: "r \<noteq> Exited ?denied"
    using passes_ksaHasAccessToGSA [where v = ?denied and w = w] run
    by (metis fst_conv)
  have roles: "fst (main_roles w fl prefix ksa gsa calls') \<noteq> Exited ?denied"
    using main_roles_never_denies by blast
  have reported: "fst (main_access w fl prefix ksa gsa wiPool calls) = Exited ?denied
      \<longleftrightarrow> fst (ksaHasAccessToGSA w wiPool (nsFlag fl) ksa gsa calls) = Returned (False, None)"
    using run roles check by (auto simp: main_access_run split: result.splits option.splits)
  have failed: "fst (main_access w fl prefix ksa gsa wiPool calls) =
      Exited (LogFatalf ''Error checking the KSAs access on the GSA: %v'' [AError err])"
    if "fst (ksaHasAccessToGSA w wiPool (nsFlag fl) ksa gsa calls) = Returned (hasAccess, Some err)"
    for hasAccess err
    using that run by (simp add: main_access_run)
  have whole: "\<exists>pool calls'. fst (ksaHasAccessToGSA w pool (nsFlag fl) ksa gsa calls') = Returned (False, None)"
    if "fst (main w fl calls) = Exited ?denied"
    using that by (rule main_denied)
  from negative reported failed whole show ?thesis
    by blast
qed

theorem denied_access_is_diagnostic_witness:
  "\<not> (\<exists>b \<in> set (Bindings exampleGSAPolicy).
      ksaIAMPolicyMember ''my-proj.svc.id.goog'' (nsFlag (exampleFlags\<lparr>ksaFlag := ''reader''\<rparr>)) ''reader''
        \<in> set (Members b)
      \<and> Role b \<in> ksaRoles)
   \<and> fst (ksaHasAccessToGSA exampleWorld ''my-proj.svc.id.goog''
            (nsFlag (exampleFlags\<lparr>ksaFlag := ''reader''\<rparr>)) ''reader'' exampleGSA []) =
       Returned (False, None)
   \<and> fst (main_access exampleWorld (exampleFlags\<lparr>ksaFlag := ''reader''\<rparr>) (AString '''') ''reader''
            exampleGSA ''my-proj.svc.id.goog'' []) =
       Exited (LogFatalf
         ''%sKSA %q, which links to GSA %q, but that GSA does not grant access to the KSA''
         [AString '''', AString ''reader'', AString exampleGSA])
   \<and> fst (main_access exampleWorld (exampleFlags\<lparr>ksaFlag := ''reader''\<rparr>) (AString '''') ''reader''
            ''nobody@other.iam.gserviceaccount.com'' ''my-proj.svc.id.goog'' []) =
       Exited (LogFatalf ''Error checking the KSAs access on the GSA: %v''
         [AError (Errorf ''getting GSA %q IAMPolicy: %w''
            [''projects/other/serviceAccounts/nobody@other.iam.gserviceaccount.com'']
            (Some (LibError ''service account not found'')))])
   \<and> fst (main exampleWorld (exampleFlags\<lparr>ksaFlag := ''reader''\<rparr>) []) =
       Exited (LogFatalf
         ''%sKSA %q, which links to GSA %q, but that GSA does not grant access to the KSA''
         [AString '''', AString ''reader'', AString exampleGSA])
   \<and> (\<exists>pool calls'.
         fst (ksaHasAccessToGSA exampleWorld pool (nsFlag (exampleFlags\<lparr>ksaFlag := ''reader''\<rparr>))
                ''reader'' exampleGSA calls') = Returned (False, None))"
proof -
  let ?fl = "exampleFlags\<lparr>ksaFlag := ''reader''\<rparr>"
  let ?res = "''projects/my-proj/serviceAccounts/gsa@my-proj.iam.gserviceaccount.com''"
  have svc: "iam_NewService exampleWorld = Inr ()"
    by code_simp
  have res: "getGSAAPIResource exampleGSA = Returned ?res"
    by code_simp
  have pol: "ServiceAccounts_GetIamPolicy exampleWorld ?res = Inr exampleGSAPolicy"
    by code_simp
  have absent: "\<forall>b \<in> set (Bindings exampleGSAPolicy).
      ksaIAMPolicyMember ''my-proj.svc.id.goog'' (nsFlag ?fl) ''reader'' \<in> set (Members b)
      \<longrightarrow> Role b \<notin> ksaRoles"
    by code_simp
  have error: "fst (ksaHasAccessToGSA exampleWorld ''my-proj.svc.id.goog'' (nsFlag ?fl) ''reader''
      ''nobody@other.iam.gserviceaccount.com'' []) =
    Returned (False, Some (Errorf ''getting GSA %q IAMPolicy: %w''
      [''projects/other/serviceAccounts/nobody@other.iam.gserviceaccount.com'']
      (Some (LibError ''service account not found''))))"
    by code_simp
  have run: "fst (main exampleWorld ?fl []) =
    Exited (LogFatalf
      ''%sKSA %q, which links to GSA %q, but that GSA does not grant access to the KSA''
      [AString '''', AString ''reader'', AString exampleGSA])"
    by code_simp
  note denied = denied_access_is_diagnostic
    [where w = exampleWorld and fl = ?fl and wiPool = "''my-proj.svc.id.goog''"
       and ksa = "''reader''" and gsa = exampleGSA and calls = "[]" and prefix = "AString ''''"]
  from denied svc res pol absent
  have negative: "fst (ksaHasAccessToGSA exampleWorld ''my-proj.svc.id.goog'' (nsFlag ?fl)
      ''reader'' exampleGSA []) = Returned (False, None)"
    by blast
  with denied
  have reported: "fst (main_access exampleWorld ?fl (AString '''') ''reader'' exampleGSA
      ''my-proj.svc.id.goog'' []) =
    Exited (LogFatalf
      ''%sKSA %q, which links to GSA %q, but that GSA does not grant access to the KSA''
      [AString '''', AString ''reader'', AString exampleGSA])"
    by blast
  from denied run
  have checked: "\<exists>pool calls'.
      fst (ksaHasAccessToGSA exampleWorld pool (nsFlag ?fl) ''reader'' exampleGSA calls') =
        Returned (False, None)"
    by blast
  from denied_access_is_diagnostic
    [where w = exampleWorld and fl = ?fl and wiPool = "''my-proj.svc.id.goog''"
       and ksa = "''reader''" and gsa = "''nobody@other.iam.gserviceaccount.com''"
       and calls = "[]" and prefix = "AString ''''"] error
  have failed: "fst (main_access exampleWorld ?fl (AString '''') ''reader''
      ''nobody@other.iam.gserviceaccount.com'' ''my-proj.svc.id.goog'' []) =
    Exited (LogFatalf ''Error checking the KSAs access on the GSA: %v''
      [AError (Errorf ''getting GSA %q IAMPolicy: %w''
         [''projects/other/serviceAccounts/nobody@other.iam.gserviceaccount.com'']
         (Some (LibError ''service account not found'')))])"
    by blast
  from absent negative reported failed run checked show ?thesis
    by blast
qed

subsection \<open>Kubeconfig or flags\<close>

text \<open>
  The three ways in which \<open>getClusterFromKubeconfig\<close> fails to read the kubeconfig.
  When the file cannot be opened or decoded, the error is returned. When the current
  user cannot be determined, the error is dropped: the function returns three empty
  strings and a nil error.
\<close>

lemma getClusterFromKubeconfig_no_user:
  "user_Current w = Inl err \<Longrightarrow>
     getClusterFromKubeconfig w calls = (Returned ('''', '''', '''', None), calls @ [Call_user_Current])"
  by (simp add: getClusterFromKubeconfig_def io_simps ret_def)

lemma getClusterFromKubeconfig_no_file:
  "user_Current w = Inr homeDir \<Longrightarrow>
   os_Open w (filepath_Join w [homeDir, ''.kube'', ''config'']) = Inl err \<Longrightarrow>
     fst (getClusterFromKubeconfig w calls) = Returned ('''', '''', '''', Some err)"
  by (simp add: getClusterFromKubeconfig_def io_simps ret_def)

lemma getClusterFromKubeconfig_no_yaml:
  "user_Current w = Inr homeDir \<Longrightarrow>
   os_Open w (filepath_Join w [homeDir, ''.kube'', ''config'']) = Inr f \<Longrightarrow>
   yaml_Decode w f = Inl err \<Longrightarrow>
     fst (getClusterFromKubeconfig w calls) = Returned ('''', '''', '''', Some err)"
  by (simp add: getClusterFromKubeconfig_def io_simps ret_def)

text \<open>
  Claim C5 says that the flags \<^verbatim>\<open>-clusterProject\<close>, \<^verbatim>\<open>-clusterLocation\<close> and
  \<^verbatim>\<open>-clusterName\<close> are consulted in every case in which the cluster cannot be read from
  the kubeconfig, the failure to determine the current user included. The run below
  shows what the program does in that case: the flags name the cluster of the example,
  \<^verbatim>\<open>user.Current\<close> fails, and the program asks GKE for the cluster
  \<^verbatim>\<open>projects//locations//clusters/\<close>, built from three empty strings, and ends there.
\<close>

theorem main_without_user_ignores_cluster_flags:
  "main (exampleWorld\<lparr>user_Current := Inl (LibError ''user: Current not implemented'')\<rparr>)
        (exampleFlags\<lparr>clusterProjectFlag := ''my-proj'',
                       clusterLocationFlag := ''us-central1'',
                       clusterNameFlag := ''cluster-1''\<rparr>) [] =
     (Exited (LogFatalf ''Error getting WI Pool: %v''
        [AError (Errorf ''getting GKE Cluster %q: %w'' [''projects//locations//clusters/'']
           (Some (LibError ''cluster not found'')))]),
      [Call_BuildConfigFromFlags '''' ''/home/dev/.kube/config'',
       Call_NewForConfig,
       Call_ServiceAccounts_Get ''default'' ''agent'',
       Call_user_Current,
       Call_container_NewService,
       Call_Clusters_Get ''projects//locations//clusters/''])"
  by code_simp

text \<open>
  The same flags are used when it is the file that cannot be opened, and the run then
  goes through to the end.
\<close>

lemma main_without_file_uses_cluster_flags:
  "main (exampleWorld\<lparr>os_Open := (\<lambda>path. Inl (LibError ''no such file''))\<rparr>)
        (exampleFlags\<lparr>clusterProjectFlag := ''my-proj'',
                       clusterLocationFlag := ''us-central1'',
                       clusterNameFlag := ''cluster-1''\<rparr>) [] =
     (Returned (Printf ''%sKSA %q, which links to GSA %q, whose roles on the project %q are %v\<newline>''
        [AString '''', AString ''agent'', AString ''gsa@my-proj.iam.gserviceaccount.com'',
         AString ''my-proj'', AStrings [''roles/storage.admin'', ''roles/pubsub.editor'']]),
      [Call_BuildConfigFromFlags '''' ''/home/dev/.kube/config'',
       Call_NewForConfig,
       Call_ServiceAccounts_Get ''default'' ''agent'',
       Call_user_Current,
       Call_os_Open ''/home/dev/.kube/config'',
       Call_container_NewService,
       Call_Clusters_Get ''projects/my-proj/locations/us-central1/clusters/cluster-1'',
       Call_iam_NewService,
       Call_ServiceAccounts_GetIamPolicy
         ''projects/my-proj/serviceAccounts/gsa@my-proj.iam.gserviceaccount.com'',
       Call_exec_Output ''gcloud'' [''config'', ''get-value'', ''core/project''],
       Call_cloudresourcemanager_NewService,
       Call_Projects_GetIamPolicy ''my-proj''])"
  by code_simp

end
